theory Spec2Isabelle
  imports Complex_Main
begin

section \<open>Numbers of the tables\<close>

text \<open>
  The cells of a pandas table are IEEE doubles.  A finite double is modelled by the real
  number it stands for, so rounding error, overflow, underflow and the sign of zero are
  not modelled; the three special values are kept, because the source relies on them:
  \<open>NaN\<close> is what pandas calls a null cell, and \<open>x / 0\<close> and \<open>log 0\<close> give
  infinities or \<open>NaN\<close> instead of raising.
\<close>

datatype float64 = Finite real | PosInf | NegInf | NaN

fun fneg :: "float64 \<Rightarrow> float64" where
  "fneg (Finite x) = Finite (- x)"
| "fneg PosInf = NegInf"
| "fneg NegInf = PosInf"
| "fneg NaN = NaN"

fun fadd :: "float64 \<Rightarrow> float64 \<Rightarrow> float64" where
  "fadd NaN b = NaN"
| "fadd a NaN = NaN"
| "fadd (Finite x) (Finite y) = Finite (x + y)"
| "fadd (Finite x) b = b"
| "fadd a (Finite y) = a"
| "fadd PosInf PosInf = PosInf"
| "fadd NegInf NegInf = NegInf"
| "fadd PosInf NegInf = NaN"
| "fadd NegInf PosInf = NaN"

definition fsub :: "float64 \<Rightarrow> float64 \<Rightarrow> float64" where
  "fsub a b = fadd a (fneg b)"

text \<open>The sign of a product or quotient with an infinite operand.\<close>

definition signed_inf :: "bool \<Rightarrow> float64" where
  "signed_inf positive = (if positive then PosInf else NegInf)"

fun fmul :: "float64 \<Rightarrow> float64 \<Rightarrow> float64" where
  "fmul NaN b = NaN"
| "fmul a NaN = NaN"
| "fmul (Finite x) (Finite y) = Finite (x * y)"
| "fmul (Finite x) PosInf = (if x = 0 then NaN else signed_inf (0 < x))"
| "fmul (Finite x) NegInf = (if x = 0 then NaN else signed_inf (x < 0))"
| "fmul PosInf (Finite y) = (if y = 0 then NaN else signed_inf (0 < y))"
| "fmul NegInf (Finite y) = (if y = 0 then NaN else signed_inf (y < 0))"
| "fmul PosInf PosInf = PosInf"
| "fmul NegInf NegInf = PosInf"
| "fmul PosInf NegInf = NegInf"
| "fmul NegInf PosInf = NegInf"

text \<open>
  numpy's true division: a zero divisor gives an infinity of the dividend's sign, and
  \<open>0 / 0\<close> and \<open>inf / inf\<close> give \<open>NaN\<close>.  Nothing raises.
\<close>

fun fdiv :: "float64 \<Rightarrow> float64 \<Rightarrow> float64" where
  "fdiv NaN b = NaN"
| "fdiv a NaN = NaN"
| "fdiv (Finite x) (Finite y) =
     (if y \<noteq> 0 then Finite (x / y)
      else if 0 < x then PosInf else if x < 0 then NegInf else NaN)"
| "fdiv (Finite x) b = Finite 0"
| "fdiv PosInf (Finite y) = signed_inf (0 \<le> y)"
| "fdiv NegInf (Finite y) = signed_inf (y < 0)"
| "fdiv a b = NaN"

text \<open>\<open>np.log\<close>: minus infinity at zero, \<open>NaN\<close> on negative numbers.\<close>

fun flog :: "float64 \<Rightarrow> float64" where
  "flog (Finite x) = (if 0 < x then Finite (ln x) else if x = 0 then NegInf else NaN)"
| "flog PosInf = PosInf"
| "flog NegInf = NaN"
| "flog NaN = NaN"

fun fabs :: "float64 \<Rightarrow> float64" where
  "fabs (Finite x) = Finite \<bar>x\<bar>"
| "fabs PosInf = PosInf"
| "fabs NegInf = PosInf"
| "fabs NaN = NaN"

text \<open>
  \<open>round(x, d)\<close> on a column is numpy's: scale by \<open>10 ^ d\<close>, round to the nearest
  integer with ties to the even one, scale back.
\<close>

definition rint :: "real \<Rightarrow> int" where
  "rint x =
     (let f = \<lfloor>x\<rfloor>; d = x - of_int f
      in if d < 1 / 2 then f else if 1 / 2 < d then f + 1
         else if even f then f else f + 1)"

fun fround :: "nat \<Rightarrow> float64 \<Rightarrow> float64" where
  "fround d (Finite x) = Finite (of_int (rint (x * 10 ^ d)) / 10 ^ d)"
| "fround d a = a"

definition isna :: "float64 \<Rightarrow> bool" where
  "isna a = (a = NaN)"

section \<open>Columns\<close>

text \<open>\<open>Series.shift(n)\<close>: the values move down by \<open>n\<close> rows, nulls fill the top.\<close>

definition shift :: "nat \<Rightarrow> float64 list \<Rightarrow> float64 list" where
  "shift n xs = replicate (min n (length xs)) NaN @ take (length xs - n) xs"

text \<open>\<open>Series.mean()\<close> skips the nulls; with nothing left the mean is null.\<close>

definition mean :: "float64 list \<Rightarrow> float64" where
  "mean xs =
     (let ys = filter (\<lambda>a. \<not> isna a) xs
      in if ys = [] then NaN
         else fdiv (foldl fadd (Finite 0) ys) (Finite (of_nat (length ys))))"

text \<open>Forward fill, the \<open>pad\<close> that older pandas applies inside \<open>pct_change\<close>.\<close>

fun ffill_from :: "float64 \<Rightarrow> float64 list \<Rightarrow> float64 list" where
  "ffill_from l [] = []"
| "ffill_from l (x # xs) = (if isna x then l # ffill_from l xs else x # ffill_from x xs)"

definition ffill :: "float64 list \<Rightarrow> float64 list" where
  "ffill xs = ffill_from NaN xs"

text \<open>
  \<open>Series.pct_change(n)\<close> is \<open>data / data.shift(n) - 1\<close>.  Whether \<open>data\<close> is the
  series itself or its forward fill depends on the pandas release (the default
  \<open>fill_method\<close> changed); the source does not pin one, so it is the parameter \<open>pad\<close>.
\<close>

definition pct_change :: "bool \<Rightarrow> nat \<Rightarrow> float64 list \<Rightarrow> float64 list" where
  "pct_change pad n xs =
     (let d = (if pad then ffill xs else xs)
      in map (\<lambda>q. fsub q (Finite 1)) (map2 fdiv d (shift n d)))"

section \<open>Tables\<close>

datatype exn =
    KeyError string
  | IndexError string
  | ValueError string
  | VendorError string

fun str :: "exn \<Rightarrow> string" where
  "str (KeyError s) = s"
| "str (IndexError s) = s"
| "str (ValueError s) = s"
| "str (VendorError s) = s"

definition bind_exn :: "exn + 'a \<Rightarrow> ('a \<Rightarrow> exn + 'b) \<Rightarrow> exn + 'b" where
  "bind_exn m f = (case m of Inl e \<Rightarrow> Inl e | Inr x \<Rightarrow> f x)"

text \<open>A timestamp of an index: nanoseconds since the epoch, or pandas' \<open>NaT\<close>.\<close>

datatype stamp = At int | NaT

type_synonym cols = "(string \<times> float64 list) list"

record frame =
  index :: "stamp list"
  axis_name :: "string option"
  columns :: cols

definition names :: "cols \<Rightarrow> string list" where
  "names cs = map fst cs"

text \<open>\<open>df[name]\<close> raises \<open>KeyError\<close> on a missing column.\<close>

definition col_get :: "string \<Rightarrow> cols \<Rightarrow> exn + float64 list" where
  "col_get name cs =
     (case map_of cs name of None \<Rightarrow> Inl (KeyError name) | Some v \<Rightarrow> Inr v)"

text \<open>\<open>df[name] = v\<close> overwrites the column where it stands, or appends a new one.\<close>

definition col_set :: "string \<Rightarrow> float64 list \<Rightarrow> cols \<Rightarrow> cols" where
  "col_set name v cs =
     (if name \<in> set (names cs)
      then map (\<lambda>(n, w). if n = name then (n, v) else (n, w)) cs
      else cs @ [(name, v)])"

text \<open>\<open>df.drop(columns=ns)\<close> raises \<open>KeyError\<close> when one of \<open>ns\<close> is missing.\<close>

definition col_drop :: "string list \<Rightarrow> cols \<Rightarrow> exn + cols" where
  "col_drop ns cs =
     (case filter (\<lambda>n. n \<notin> set (names cs)) ns of
        [] \<Rightarrow> Inr (filter (\<lambda>(n, w). n \<notin> set ns) cs)
      | m # ms \<Rightarrow> Inl (KeyError (concat (m # ms) @ '' not found in axis'')))"

text \<open>\<open>df.rename(columns=m)\<close> leaves the labels outside \<open>m\<close> alone and never raises.\<close>

definition col_rename :: "(string \<times> string) list \<Rightarrow> cols \<Rightarrow> cols" where
  "col_rename m cs =
     map (\<lambda>(n, w). (case map_of m n of None \<Rightarrow> n | Some n' \<Rightarrow> n', w)) cs"

text \<open>\<open>df[[n1, n2, ...]]\<close> takes the named columns in the order asked for.\<close>

definition col_select :: "string list \<Rightarrow> cols \<Rightarrow> exn + cols" where
  "col_select ns cs =
     (case filter (\<lambda>n. n \<notin> set (names cs)) ns of
        [] \<Rightarrow> Inr (concat (map (\<lambda>n. filter (\<lambda>(k, w). k = n) cs) ns))
      | m # ms \<Rightarrow> Inl (KeyError (concat (m # ms) @ '' not in index'')))"

definition set_col :: "string \<Rightarrow> float64 list \<Rightarrow> frame \<Rightarrow> frame" where
  "set_col name v df = df\<lparr>columns := col_set name v (columns df)\<rparr>"

text \<open>\<open>df.empty\<close>: one of the two axes has length zero.\<close>

definition empty :: "frame \<Rightarrow> bool" where
  "empty df = (index df = [] \<or> columns df = [])"

text \<open>Every column of a table has one cell per row.\<close>

definition well_formed :: "frame \<Rightarrow> bool" where
  "well_formed df = list_all (\<lambda>(n, w). length w = length (index df)) (columns df)"

section \<open>Feature engineering: \<open>calculate_volatility\<close>\<close>

text \<open>
  The statements after the guard.  Each assignment writes a column of the table bound to
  \<open>df\<close> and the next statement reads it back.  Only the first read can raise: the
  source looks up \<open>Adj Close\<close> without checking that the column is there.
\<close>

definition calculate_volatility_body :: "frame \<Rightarrow> exn + frame" where
  "calculate_volatility_body df =
     bind_exn (col_get ''Adj Close'' (columns df)) (\<lambda>close.
     let df1 = set_col ''Log_Returns'' (map flog (map2 fdiv close (shift 1 close))) df in
     bind_exn (col_get ''Log_Returns'' (columns df1)) (\<lambda>lr.
     let df2 = set_col ''Volatility'' (map fabs lr) df1 in
     bind_exn (col_get ''Volatility'' (columns df2)) (\<lambda>vol.
     let df3 = set_col ''Average_Volatility''
                 (replicate (length (index df2)) (mean vol)) df2 in
     bind_exn (col_get ''Volatility'' (columns df3)) (\<lambda>vol'.
     bind_exn (col_get ''Average_Volatility'' (columns df3)) (\<lambda>avg.
     Inr (set_col ''Volatility_Multiplier''
            (map (fround 2) (map2 fdiv vol' avg)) df3))))))"

text \<open>
  The function receives a reference to a table object (or \<open>None\<close>), and its column
  assignments write into that object.  The heap maps references to the tables they
  denote; the outcome is the heap after the call, what was printed, and the value
  returned or the exception raised.
\<close>

type_synonym ref = nat
type_synonym heap = "ref \<Rightarrow> frame"

definition calculate_volatility ::
    "heap \<Rightarrow> ref option \<Rightarrow> heap \<times> string list \<times> (exn + ref option)" where
  "calculate_volatility h df =
     (case df of
        None \<Rightarrow> (h, [''Error: DataFrame is empty or invalid.''], Inr None)
      | Some r \<Rightarrow>
          if empty (h r)
          then (h, [''Error: DataFrame is empty or invalid.''], Inr None)
          else (case calculate_volatility_body (h r) of
                  Inl e \<Rightarrow> (h, [], Inl e)
                | Inr df' \<Rightarrow> (h(r := df'), [], Inr (Some r))))"

text \<open>
  The four columns the function writes, as functions of the close column and of the
  number of rows; they only name the right-hand sides of the four assignments, for the
  statements below.
\<close>

definition new_columns :: "string list" where
  "new_columns = [''Log_Returns'', ''Volatility'', ''Average_Volatility'', ''Volatility_Multiplier'']"

definition log_returns :: "float64 list \<Rightarrow> float64 list" where
  "log_returns close = map flog (map2 fdiv close (shift 1 close))"

definition volatility :: "float64 list \<Rightarrow> float64 list" where
  "volatility close = map fabs (log_returns close)"

definition average_volatility :: "float64 list \<Rightarrow> float64" where
  "average_volatility close = mean (volatility close)"

definition volatility_multiplier :: "nat \<Rightarrow> float64 list \<Rightarrow> float64 list" where
  "volatility_multiplier rows close =
     map (fround 2) (map2 fdiv (volatility close) (replicate rows (average_volatility close)))"

text \<open>A sum of absolute values is never \<open>NaN\<close> or minus infinity.\<close>

fun finite_or_posinf :: "float64 \<Rightarrow> bool" where
  "finite_or_posinf (Finite x) = True"
| "finite_or_posinf PosInf = True"
| "finite_or_posinf a = False"

section \<open>Data retrieval\<close>

text \<open>
  The three fetch functions share one shape: a \<open>try\<close> block around the vendor call and
  the reshaping of its answer, and an \<open>except Exception\<close> that prints a line and returns
  \<open>None\<close>.  The vendor is a parameter of the model: a function from the request to the
  exception it raises or the data it serves.  A fetch function returns what it printed
  and the table or \<open>None\<close>.
\<close>

definition guarded :: "string \<Rightarrow> exn + frame \<Rightarrow> string list \<times> frame option" where
  "guarded prefix body =
     (case body of Inl e \<Rightarrow> ([prefix @ str e], None) | Inr df \<Rightarrow> ([], Some df))"

subsection \<open>Yahoo Finance: \<open>yf_get_fx_data\<close>\<close>

record yf_request =
  yf_tickers :: string
  yf_start :: string
  yf_end :: string
  yf_interval :: string

text \<open>
  What \<open>yf.download\<close> answers: a time index and columns that are either flat or carry a
  second level with the ticker.
\<close>

datatype yf_columns =
    Flat cols
  | TwoLevel "((string \<times> string) \<times> float64 list) list"

record download =
  d_index :: "stamp list"
  d_columns :: yf_columns

text \<open>
  The text \<open>strftime('%Y-%m-%d %H:%M')\<close> writes names a minute and nothing finer; it is
  modelled by the number of that minute, and \<open>pd.to_datetime\<close> reads it back as the
  start of the minute.
\<close>

datatype minute_text = Minute int | Blank

fun strftime :: "stamp \<Rightarrow> minute_text" where
  "strftime (At t) = Minute (t div 60000000000)"
| "strftime NaT = Blank"

fun to_datetime :: "minute_text \<Rightarrow> stamp" where
  "to_datetime (Minute m) = At (m * 60000000000)"
| "to_datetime Blank = NaT"

text \<open>\<open>columns.droplevel(1)\<close> needs a second level to drop.\<close>

fun droplevel :: "yf_columns \<Rightarrow> exn + cols" where
  "droplevel (Flat cs) = Inl (IndexError ''Too many levels: Index has only 1 level, not 2'')"
| "droplevel (TwoLevel cs) = Inr (map (\<lambda>((field, ticker), w). (field, w)) cs)"

definition yf_get_fx_data ::
    "(yf_request \<Rightarrow> exn + download) \<Rightarrow> string \<Rightarrow> string \<Rightarrow> string \<Rightarrow> string
     \<Rightarrow> string list \<times> frame option" where
  "yf_get_fx_data yf_download fx_pair interval start_date end_date =
     guarded ''An error occurred: ''
       (bind_exn (yf_download \<lparr>yf_tickers = fx_pair, yf_start = start_date,
                              yf_end = end_date, yf_interval = interval\<rparr>) (\<lambda>data.
        let texts = map strftime (d_index data) in
        bind_exn (droplevel (d_columns data)) (\<lambda>cs.
        let idx = map to_datetime texts in
        bind_exn (col_select [''Open'', ''High'', ''Low'', ''Adj Close''] cs) (\<lambda>cs'.
        Inr \<lparr>index = idx, axis_name = Some fx_pair, columns = cs'\<rparr>))))"

subsection \<open>Polygon.io: \<open>polygon_get_fx_data\<close>\<close>

record polygon_request =
  p_api_key :: string
  p_ticker :: string
  p_multiplier :: nat
  p_timespan :: string
  p_from :: string
  p_to :: string

text \<open>
  One aggregate bar of the vendor's client library.  The source names its fields in the
  drop list, in the rename map and, for \<open>vwap\<close>, in \<open>plot_time_series\<close>, and the output
  saved in the notebook shows the six that survive; a field the vendor left out is a
  null cell.
\<close>

record agg =
  a_open :: float64
  a_high :: float64
  a_low :: float64
  a_close :: float64
  a_volume :: float64
  a_vwap :: float64
  a_timestamp :: float64
  a_transactions :: float64
  a_otc :: float64

text \<open>\<open>pd.DataFrame(rows)\<close>: one column per field; no rows, no columns.\<close>

definition DataFrame :: "agg list \<Rightarrow> cols" where
  "DataFrame rows =
     (if rows = [] then []
      else [(''open'', map a_open rows), (''high'', map a_high rows),
            (''low'', map a_low rows), (''close'', map a_close rows),
            (''volume'', map a_volume rows), (''vwap'', map a_vwap rows),
            (''timestamp'', map a_timestamp rows),
            (''transactions'', map a_transactions rows), (''otc'', map a_otc rows)])"

text \<open>\<open>df.empty\<close> on the table just built, which has no time index yet.\<close>

definition cols_empty :: "cols \<Rightarrow> bool" where
  "cols_empty cs = list_all (\<lambda>(n, w). w = []) cs"

text \<open>
  \<open>pd.to_datetime(column, unit="ms")\<close>: milliseconds since the epoch become timestamps,
  a null becomes \<open>NaT\<close>, an infinity raises.
\<close>

fun to_datetime_ms :: "float64 list \<Rightarrow> exn + stamp list" where
  "to_datetime_ms [] = Inr []"
| "to_datetime_ms (Finite x # xs) =
     bind_exn (to_datetime_ms xs) (\<lambda>ts. Inr (At \<lfloor>x * 1000000\<rfloor> # ts))"
| "to_datetime_ms (NaN # xs) = bind_exn (to_datetime_ms xs) (\<lambda>ts. Inr (NaT # ts))"
| "to_datetime_ms (a # xs) = Inl (ValueError ''cannot convert input with unit ms'')"

text \<open>
  The request is an effect of the call, so the outcome lists the requests sent, before
  what was printed and the value returned.  The two statements that add the column
  \<open>Datetime\<close> and make it the index are one step of the model: the new index, and no
  column of that name left.
\<close>

definition polygon_get_fx_data ::
    "(polygon_request \<Rightarrow> exn + agg list) \<Rightarrow> string \<Rightarrow> string \<Rightarrow> string \<Rightarrow> string \<Rightarrow> string
     \<Rightarrow> polygon_request list \<times> string list \<times> frame option" where
  "polygon_get_fx_data get_aggs fx_pair interval start_date end_date key =
     (let fx_pair_polygon_formated = ''C:'' @ fx_pair;
          request = \<lparr>p_api_key = key, p_ticker = fx_pair_polygon_formated,
                     p_multiplier = 1, p_timespan = interval, p_from = start_date,
                     p_to = end_date\<rparr>
      in ([request],
          (case get_aggs request of
             Inl e \<Rightarrow> guarded ''An error occurred: '' (Inl e)
           | Inr data_request \<Rightarrow>
               let df = DataFrame data_request in
               if cols_empty df then ([''No data found.''], None)
               else guarded ''An error occurred: ''
                 (bind_exn (col_get ''timestamp'' df) (\<lambda>ts.
                  bind_exn (to_datetime_ms ts) (\<lambda>idx.
                  let df1 = filter (\<lambda>(n, w). n \<noteq> ''Datetime'') df in
                  bind_exn (col_drop [''otc'', ''transactions'', ''timestamp''] df1) (\<lambda>df2.
                  let df3 = col_rename [(''open'', ''Open''), (''high'', ''High''),
                              (''low'', ''Low''), (''close'', ''Adj Close''),
                              (''volume'', ''Volume'')] df2 in
                  Inr \<lparr>index = idx, axis_name = Some fx_pair, columns = df3\<rparr>)))))))"

subsection \<open>FRED: \<open>fetch_fred_data\<close>\<close>

text \<open>What \<open>fred.get_series\<close> answers: the whole history of one indicator, by date.\<close>

record series =
  s_index :: "stamp list"
  s_values :: "float64 list"

text \<open>
  \<open>df.loc[start_date:end_date]\<close> on a date-ordered index keeps the rows whose date lies in
  the closed window; the two dates are given as the instants their texts stand for.
\<close>

fun in_window :: "int \<Rightarrow> int \<Rightarrow> stamp \<Rightarrow> bool" where
  "in_window lo hi (At t) = (lo \<le> t \<and> t \<le> hi)"
| "in_window lo hi NaT = False"

definition keep_rows :: "bool list \<Rightarrow> 'a list \<Rightarrow> 'a list" where
  "keep_rows keep xs = map snd (filter fst (zip keep xs))"

definition loc :: "int \<Rightarrow> int \<Rightarrow> frame \<Rightarrow> frame" where
  "loc lo hi df =
     (let keep = map (in_window lo hi) (index df)
      in df\<lparr>index := keep_rows keep (index df),
            columns := map (\<lambda>(n, w). (n, keep_rows keep w)) (columns df)\<rparr>)"

definition fetch_fred_data ::
    "bool \<Rightarrow> (string \<Rightarrow> exn + series) \<Rightarrow> string \<Rightarrow> int \<Rightarrow> int
     \<Rightarrow> string list \<times> frame option" where
  "fetch_fred_data pad get_series indicator start_date end_date =
     guarded ''Error fetching data: ''
       (bind_exn (get_series indicator) (\<lambda>data.
        let df = \<lparr>index = s_index data, axis_name = None,
                  columns = [(indicator, s_values data)]\<rparr>;
            df = loc start_date end_date df in
        bind_exn (col_get indicator (columns df)) (\<lambda>v.
        let df = set_col ''Percentage_Change'' (map (fround 4) (pct_change pad 1 v)) df in
        if indicator = ''CPIAUCSL''
        then bind_exn (col_get indicator (columns df)) (\<lambda>v'.
             Inr (set_col ''YoY_Inflation''
                    (map (fround 2)
                       (map (\<lambda>q. fmul q (Finite 100)) (pct_change pad 12 v'))) df))
        else Inr df)))"

section \<open>Sample inputs\<close>



text \<open>
  Two one-minute bars as Polygon serves them (timestamps in milliseconds), and two as
  Yahoo Finance serves them under two-level columns.
\<close>

definition sample_aggs :: "agg list" where
  "sample_aggs =
     [\<lparr>a_open = Finite 0.78515, a_high = Finite 0.78518, a_low = Finite 0.78512,
        a_close = Finite 0.78513, a_volume = Finite 39, a_vwap = Finite 0.7852,
        a_timestamp = Finite 1705276800000, a_transactions = Finite 39, a_otc = NaN\<rparr>,
      \<lparr>a_open = Finite 0.78519, a_high = Finite 0.78529, a_low = Finite 0.78517,
        a_close = Finite 0.78528, a_volume = Finite 45, a_vwap = Finite 0.7853,
        a_timestamp = Finite 1705276860000, a_transactions = Finite 45, a_otc = NaN\<rparr>]"

definition sample_download :: download where
  "sample_download =
     \<lparr>d_index = [At 1741132800000000000, At 1741132860000000000],
       d_columns = TwoLevel
         [((''Adj Close'', ''GBPUSD=X''), [Finite 1.2794, Finite 1.2795]),
          ((''Close'', ''GBPUSD=X''), [Finite 1.2794, Finite 1.2795]),
          ((''High'', ''GBPUSD=X''), [Finite 1.2796, Finite 1.2797]),
          ((''Low'', ''GBPUSD=X''), [Finite 1.2793, Finite 1.2794]),
          ((''Open'', ''GBPUSD=X''), [Finite 1.2793, Finite 1.2794]),
          ((''Volume'', ''GBPUSD=X''), [Finite 0, Finite 0])]\<rparr>"

text \<open>
  Tables for the feature extractor, each held at reference \<open>0\<close> of a heap: the three
  closes of the spec's example, a flat series that ends in a null, a single row, and a
  constant series.
\<close>

definition heap_of :: "frame \<Rightarrow> heap" where
  "heap_of df = (\<lambda>r. if r = 0 then df else \<lparr>index = [], axis_name = None, columns = []\<rparr>)"

definition three_rows :: frame where
  "three_rows =
     \<lparr>index = [At 0, At 60000000000, At 120000000000], axis_name = Some ''USDGBP'',
       columns = [(''Open'', [Finite 99.5, Finite 100, Finite 101]),
                  (''High'', [Finite 100.5, Finite 101.5, Finite 101.2]),
                  (''Low'', [Finite 99, Finite 99.8, Finite 100.2]),
                  (''Adj Close'', [Finite 100, Finite 101, Finite 100.5])]\<rparr>"

definition flat_then_null :: frame where
  "flat_then_null =
     \<lparr>index = [At 0, At 60000000000, At 120000000000], axis_name = Some ''USDGBP'',
       columns = [(''Adj Close'', [Finite 1, Finite 1, NaN])]\<rparr>"

definition one_row :: frame where
  "one_row = \<lparr>index = [At 0], axis_name = Some ''USDGBP'',
              columns = [(''Adj Close'', [Finite 100])]\<rparr>"

definition constant_rows :: frame where
  "constant_rows =
     \<lparr>index = [At 0, At 60000000000, At 120000000000], axis_name = Some ''USDGBP'',
       columns = [(''Adj Close'', [Finite 1.25, Finite 1.25, Finite 1.25])]\<rparr>"

section \<open>Properties of the column operations\<close>

lemma length_shift: "length (shift n xs) = length xs"
  by (simp add: shift_def)

lemma nth_shift:
  "i < length xs \<Longrightarrow> shift n xs ! i = (if i < n then NaN else xs ! (i - n))"
  by (auto simp: shift_def nth_append)

lemma fdiv_NaN_right: "fdiv a NaN = NaN"
  by (cases a) simp_all

lemma map_of_overwrite_other:
  "m \<noteq> n \<Longrightarrow>
   map_of (map (\<lambda>(k, w). if k = n then (k, v) else (k, w)) cs) m = map_of cs m"
  by (induction cs) auto

lemma map_of_overwrite_same:
  "map_of (map (\<lambda>(k, w). if k = n then (k, v) else (k, w)) cs) n =
     (if n \<in> set (names cs) then Some v else None)"
  by (induction cs) (auto simp: names_def)

lemma map_of_col_set: "map_of (col_set n v cs) m = (if m = n then Some v else map_of cs m)"
proof (cases "n \<in> set (names cs)")
  case True
  then show ?thesis
    by (simp add: col_set_def map_of_overwrite_other map_of_overwrite_same)
next
  case False
  then have "map_of cs n = None"
    by (simp add: names_def map_of_eq_None_iff)
  with False show ?thesis
    by (simp add: col_set_def map_add_def split: option.splits)
qed

lemma col_get_col_set:
  "col_get m (col_set n v cs) = (if m = n then Inr v else col_get m cs)"
  by (simp add: col_get_def map_of_col_set)

section \<open>The feature extractor on absent and empty tables\<close>

text \<open>
  C9.  Called with \<open>None\<close>, or with a table that has no rows or no columns,
  \<open>calculate_volatility\<close> prints its diagnostic line, returns \<open>None\<close>, raises nothing and
  leaves every table as it was.
\<close>

theorem calculate_volatility_no_data:
  assumes "df = None \<or> (\<exists>r. df = Some r \<and> empty (h r))"
  shows "calculate_volatility h df =
           (h, [''Error: DataFrame is empty or invalid.''], Inr None)"
  using assms by (auto simp: calculate_volatility_def)

theorem calculate_volatility_no_data_witness:
  "calculate_volatility (\<lambda>r. \<lparr>index = [], axis_name = None, columns = [(''Adj Close'', [])]\<rparr>)
     (Some 0) =
     (\<lambda>r. \<lparr>index = [], axis_name = None, columns = [(''Adj Close'', [])]\<rparr>,
      [''Error: DataFrame is empty or invalid.''], Inr None)
   \<and> calculate_volatility (\<lambda>r. \<lparr>index = [At 0], axis_name = None, columns = []\<rparr>) (Some 0) =
     (\<lambda>r. \<lparr>index = [At 0], axis_name = None, columns = []\<rparr>,
      [''Error: DataFrame is empty or invalid.''], Inr None)
   \<and> calculate_volatility
       (\<lambda>r. \<lparr>index = [At 0], axis_name = None, columns = [(''Adj Close'', [Finite 1])]\<rparr>) None =
     (\<lambda>r. \<lparr>index = [At 0], axis_name = None, columns = [(''Adj Close'', [Finite 1])]\<rparr>,
      [''Error: DataFrame is empty or invalid.''], Inr None)"
proof (intro conjI)
  show "calculate_volatility
          (\<lambda>r. \<lparr>index = [], axis_name = None, columns = [(''Adj Close'', [])]\<rparr>) (Some 0) =
        (\<lambda>r. \<lparr>index = [], axis_name = None, columns = [(''Adj Close'', [])]\<rparr>,
         [''Error: DataFrame is empty or invalid.''], Inr None)"
    by (rule calculate_volatility_no_data) (simp add: empty_def)
  show "calculate_volatility (\<lambda>r. \<lparr>index = [At 0], axis_name = None, columns = []\<rparr>) (Some 0) =
        (\<lambda>r. \<lparr>index = [At 0], axis_name = None, columns = []\<rparr>,
         [''Error: DataFrame is empty or invalid.''], Inr None)"
    by (rule calculate_volatility_no_data) (simp add: empty_def)
  show "calculate_volatility
          (\<lambda>r. \<lparr>index = [At 0], axis_name = None, columns = [(''Adj Close'', [Finite 1])]\<rparr>)
          None =
        (\<lambda>r. \<lparr>index = [At 0], axis_name = None, columns = [(''Adj Close'', [Finite 1])]\<rparr>,
         [''Error: DataFrame is empty or invalid.''], Inr None)"
    by (rule calculate_volatility_no_data) simp
qed

section \<open>The symbol of the Polygon request\<close>

text \<open>
  C8.  Whatever the instrument code, \<open>polygon_get_fx_data\<close> sends exactly one request, and
  its ticker is the code with \<open>C:\<close> in front; the other fields are the arguments as given.
  The outcome is the same against a vendor that answers no other ticker.
\<close>

theorem polygon_request_symbol:
  "fst (polygon_get_fx_data get_aggs fx_pair interval start_date end_date key) =
     [\<lparr>p_api_key = key, p_ticker = ''C:'' @ fx_pair, p_multiplier = 1,
       p_timespan = interval, p_from = start_date, p_to = end_date\<rparr>]
   \<and> polygon_get_fx_data get_aggs fx_pair interval start_date end_date key =
     polygon_get_fx_data
       (\<lambda>request. if p_ticker request = ''C:'' @ fx_pair then get_aggs request
                   else Inl (VendorError ''not asked''))
       fx_pair interval start_date end_date key"
  by (simp add: polygon_get_fx_data_def Let_def)

theorem polygon_request_symbol_witness:
  "map p_ticker
     (fst (polygon_get_fx_data (\<lambda>request. Inr []) ''USDGBP'' ''minute'' ''2025-01-15''
             ''2025-01-15'' ''key'')) = [''C:USDGBP'']"
  by (simp add: polygon_request_symbol [THEN conjunct1])

section \<open>The market data normalizers\<close>

text \<open>
  What the two functions return, case by case: a vendor exception and, for Polygon, an
  answer without rows end in a printed line and \<open>None\<close>; otherwise the table is the
  vendor's data under the source's column names.
\<close>

lemma yf_failure:
  "yf_download \<lparr>yf_tickers = fx_pair, yf_start = start_date, yf_end = end_date,
      yf_interval = interval\<rparr> = Inl e \<Longrightarrow>
   yf_get_fx_data yf_download fx_pair interval start_date end_date =
     ([''An error occurred: '' @ str e], None)"
  by (simp add: yf_get_fx_data_def guarded_def bind_exn_def)

lemma names_select:
  "names (concat (map (\<lambda>n. filter (\<lambda>(k, w). k = n) cs) ns)) =
   concat (map (\<lambda>n. filter (\<lambda>k. k = n) (names cs)) ns)"
  by (induction ns) (auto simp: names_def filter_map comp_def case_prod_beta)

lemma col_select_names:
  assumes "col_select ns cs = Inr cs'"
  shows "set (names cs') = set ns"
proof -
  from assms have sub: "set ns \<subseteq> set (names cs)"
    and eq: "cs' = concat (map (\<lambda>n. filter (\<lambda>(k, w). k = n) cs) ns)"
    by (auto simp: col_select_def filter_empty_conv split: list.splits)
  from sub show ?thesis
    unfolding eq names_select by auto
qed

lemma yf_success:
  assumes "yf_get_fx_data yf_download fx_pair interval start_date end_date = (out, Some df)"
  shows "\<exists>data cs. yf_download \<lparr>yf_tickers = fx_pair, yf_start = start_date,
                         yf_end = end_date, yf_interval = interval\<rparr> = Inr data
      \<and> d_columns data = TwoLevel cs
      \<and> index df = map (\<lambda>t. to_datetime (strftime t)) (d_index data)
      \<and> axis_name df = Some fx_pair
      \<and> set (names (columns df)) = {''Open'', ''High'', ''Low'', ''Adj Close''}"
proof -
  let ?req = "\<lparr>yf_tickers = fx_pair, yf_start = start_date, yf_end = end_date,
                 yf_interval = interval\<rparr>"
  from assms obtain data where d: "yf_download ?req = Inr data"
    by (cases "yf_download ?req") (simp_all add: yf_failure)
  from assms d obtain cs where c: "d_columns data = TwoLevel cs"
    by (cases "d_columns data")
      (simp_all add: yf_get_fx_data_def guarded_def bind_exn_def)
  let ?flat = "map (\<lambda>((field, ticker), w). (field, w)) cs"
  from assms d c obtain cs' where
    s: "col_select [''Open'', ''High'', ''Low'', ''Adj Close''] ?flat = Inr cs'"
    by (cases "col_select [''Open'', ''High'', ''Low'', ''Adj Close''] ?flat")
      (simp_all add: yf_get_fx_data_def guarded_def bind_exn_def Let_def)
  from assms d c s have df: "df = \<lparr>index = map (\<lambda>t. to_datetime (strftime t)) (d_index data),
      axis_name = Some fx_pair, columns = cs'\<rparr>"
    by (simp add: yf_get_fx_data_def guarded_def bind_exn_def Let_def comp_def)
  from col_select_names [OF s] have "set (names cs') = {''Open'', ''High'', ''Low'', ''Adj Close''}"
    by simp
  with d c df show ?thesis by simp
qed

lemma polygon_failure:
  "get_aggs \<lparr>p_api_key = key, p_ticker = ''C:'' @ fx_pair, p_multiplier = 1,
      p_timespan = interval, p_from = start_date, p_to = end_date\<rparr> = Inl e \<Longrightarrow>
   snd (polygon_get_fx_data get_aggs fx_pair interval start_date end_date key) =
     ([''An error occurred: '' @ str e], None)"
  by (simp add: polygon_get_fx_data_def guarded_def Let_def)

lemma polygon_no_rows:
  "get_aggs \<lparr>p_api_key = key, p_ticker = ''C:'' @ fx_pair, p_multiplier = 1,
      p_timespan = interval, p_from = start_date, p_to = end_date\<rparr> = Inr [] \<Longrightarrow>
   snd (polygon_get_fx_data get_aggs fx_pair interval start_date end_date key) =
     ([''No data found.''], None)"
  by (simp add: polygon_get_fx_data_def Let_def DataFrame_def cols_empty_def)

lemma polygon_rows:
  assumes "get_aggs \<lparr>p_api_key = key, p_ticker = ''C:'' @ fx_pair, p_multiplier = 1,
      p_timespan = interval, p_from = start_date, p_to = end_date\<rparr> = Inr rows"
    and "rows \<noteq> []"
  shows "snd (polygon_get_fx_data get_aggs fx_pair interval start_date end_date key) =
     (case to_datetime_ms (map a_timestamp rows) of
        Inl e \<Rightarrow> ([''An error occurred: '' @ str e], None)
      | Inr idx \<Rightarrow> ([], Some \<lparr>index = idx, axis_name = Some fx_pair,
           columns = [(''Open'', map a_open rows), (''High'', map a_high rows),
                      (''Low'', map a_low rows), (''Adj Close'', map a_close rows),
                      (''Volume'', map a_volume rows), (''vwap'', map a_vwap rows)]\<rparr>))"
  using assms
  by (simp add: polygon_get_fx_data_def Let_def DataFrame_def cols_empty_def guarded_def
      bind_exn_def col_get_def col_drop_def col_rename_def names_def split: sum.splits)

lemma polygon_success:
  assumes "polygon_get_fx_data get_aggs fx_pair interval start_date end_date key =
             (reqs, out, Some df)"
  shows "\<exists>rows. get_aggs \<lparr>p_api_key = key, p_ticker = ''C:'' @ fx_pair, p_multiplier = 1,
                   p_timespan = interval, p_from = start_date, p_to = end_date\<rparr> = Inr rows
      \<and> rows \<noteq> []
      \<and> to_datetime_ms (map a_timestamp rows) = Inr (index df)
      \<and> axis_name df = Some fx_pair
      \<and> columns df = [(''Open'', map a_open rows), (''High'', map a_high rows),
                      (''Low'', map a_low rows), (''Adj Close'', map a_close rows),
                      (''Volume'', map a_volume rows), (''vwap'', map a_vwap rows)]"
proof -
  let ?req = "\<lparr>p_api_key = key, p_ticker = ''C:'' @ fx_pair, p_multiplier = 1,
                 p_timespan = interval, p_from = start_date, p_to = end_date\<rparr>"
  from assms have r: "snd (polygon_get_fx_data get_aggs fx_pair interval start_date end_date key)
      = (out, Some df)" by simp
  from r obtain rows where a: "get_aggs ?req = Inr rows"
    by (cases "get_aggs ?req") (simp_all add: polygon_failure)
  from r a have ne: "rows \<noteq> []"
    by (auto simp: polygon_no_rows)
  from r show ?thesis
    unfolding polygon_rows [of get_aggs key fx_pair interval start_date end_date rows, OF a ne]
    using a ne by (auto split: sum.splits)
qed

lemma yf_sample:
  "yf_get_fx_data (\<lambda>request. Inr sample_download) ''GBPUSD=X'' ''1m'' ''2025-03-05'' ''2025-03-08'' =
     ([], Some \<lparr>index = [At 1741132800000000000, At 1741132860000000000],
                axis_name = Some ''GBPUSD=X'',
                columns = [(''Open'', [Finite 1.2793, Finite 1.2794]),
                           (''High'', [Finite 1.2796, Finite 1.2797]),
                           (''Low'', [Finite 1.2793, Finite 1.2794]),
                           (''Adj Close'', [Finite 1.2794, Finite 1.2795])]\<rparr>)"
  by (simp add: yf_get_fx_data_def guarded_def bind_exn_def sample_download_def Let_def
      col_select_def names_def)

lemma polygon_sample:
  "polygon_get_fx_data (\<lambda>request. Inr sample_aggs) ''USDGBP'' ''minute'' ''2024-01-15''
      ''2025-01-15'' ''key'' =
     ([\<lparr>p_api_key = ''key'', p_ticker = ''C:USDGBP'', p_multiplier = 1,
        p_timespan = ''minute'', p_from = ''2024-01-15'', p_to = ''2025-01-15''\<rparr>],
      [],
      Some \<lparr>index = [At 1705276800000000000, At 1705276860000000000],
            axis_name = Some ''USDGBP'',
            columns = [(''Open'', [Finite 0.78515, Finite 0.78519]),
                       (''High'', [Finite 0.78518, Finite 0.78529]),
                       (''Low'', [Finite 0.78512, Finite 0.78517]),
                       (''Adj Close'', [Finite 0.78513, Finite 0.78528]),
                       (''Volume'', [Finite 39, Finite 45]),
                       (''vwap'', [Finite 0.7852, Finite 0.7853])]\<rparr>)"
  by (simp add: polygon_get_fx_data_def Let_def DataFrame_def cols_empty_def guarded_def
      bind_exn_def col_get_def col_drop_def col_rename_def names_def sample_aggs_def)

lemma polygon_keeps_vendor_order:
  "snd (snd (polygon_get_fx_data (\<lambda>request. Inr (rev sample_aggs)) ''USDGBP'' ''minute''
      ''2024-01-15'' ''2025-01-15'' ''key'')) =
      Some \<lparr>index = [At 1705276860000000000, At 1705276800000000000],
            axis_name = Some ''USDGBP'',
            columns = [(''Open'', [Finite 0.78519, Finite 0.78515]),
                       (''High'', [Finite 0.78529, Finite 0.78518]),
                       (''Low'', [Finite 0.78517, Finite 0.78512]),
                       (''Adj Close'', [Finite 0.78528, Finite 0.78513]),
                       (''Volume'', [Finite 45, Finite 39]),
                       (''vwap'', [Finite 0.7853, Finite 0.7852])]\<rparr>"
  by (simp add: polygon_get_fx_data_def Let_def DataFrame_def cols_empty_def guarded_def
      bind_exn_def col_get_def col_drop_def col_rename_def names_def sample_aggs_def)

text \<open>
  A download without rows passes through \<open>yf_get_fx_data\<close> as a table without rows:
  the function has no check of its own for it.
\<close>

lemma yf_no_rows:
  "yf_get_fx_data
     (\<lambda>request. Inr \<lparr>d_index = [],
        d_columns = TwoLevel
          [((''Adj Close'', ''GBPUSD=X''), []), ((''Close'', ''GBPUSD=X''), []),
           ((''High'', ''GBPUSD=X''), []), ((''Low'', ''GBPUSD=X''), []),
           ((''Open'', ''GBPUSD=X''), []), ((''Volume'', ''GBPUSD=X''), [])]\<rparr>)
     ''GBPUSD=X'' ''1m'' ''2025-03-05'' ''2025-03-08'' =
     ([], Some \<lparr>index = [], axis_name = Some ''GBPUSD=X'',
                columns = [(''Open'', []), (''High'', []), (''Low'', []),
                           (''Adj Close'', [])]\<rparr>)"
  by (simp add: yf_get_fx_data_def guarded_def bind_exn_def Let_def col_select_def names_def)

text \<open>
  C1, as the code has it.  A successful \<open>yf_get_fx_data\<close> call returns the columns
  \<open>Open\<close>, \<open>High\<close>, \<open>Low\<close> and \<open>Adj Close\<close> and no other, indexed by the vendor's
  timestamps cut to the minute; a successful \<open>polygon_get_fx_data\<close> call returns the
  columns \<open>Open\<close>, \<open>High\<close>, \<open>Low\<close>, \<open>Adj Close\<close>, \<open>Volume\<close> and \<open>vwap\<close>, indexed
  by the vendor's timestamps.  In both the rows stay in the vendor's order: nothing
  sorts the index or removes duplicates.
\<close>

theorem normalizer_schema:
  "(yf_get_fx_data yf_download fx_pair interval start_date end_date = (out, Some df) \<longrightarrow>
      (\<exists>data. yf_download \<lparr>yf_tickers = fx_pair, yf_start = start_date,
                  yf_end = end_date, yf_interval = interval\<rparr> = Inr data
         \<and> index df = map (\<lambda>t. to_datetime (strftime t)) (d_index data))
      \<and> set (names (columns df)) = {''Open'', ''High'', ''Low'', ''Adj Close''})
   \<and> (polygon_get_fx_data get_aggs fx_pair interval start_date end_date key =
        (reqs, out', Some df') \<longrightarrow>
      (\<exists>rows. get_aggs \<lparr>p_api_key = key, p_ticker = ''C:'' @ fx_pair, p_multiplier = 1,
                  p_timespan = interval, p_from = start_date, p_to = end_date\<rparr> = Inr rows
         \<and> to_datetime_ms (map a_timestamp rows) = Inr (index df'))
      \<and> names (columns df') =
          [''Open'', ''High'', ''Low'', ''Adj Close'', ''Volume'', ''vwap''])"
proof (intro conjI impI)
  assume "yf_get_fx_data yf_download fx_pair interval start_date end_date = (out, Some df)"
  from yf_success [OF this]
  show "\<exists>data. yf_download \<lparr>yf_tickers = fx_pair, yf_start = start_date,
                  yf_end = end_date, yf_interval = interval\<rparr> = Inr data
         \<and> index df = map (\<lambda>t. to_datetime (strftime t)) (d_index data)"
    and "set (names (columns df)) = {''Open'', ''High'', ''Low'', ''Adj Close''}"
    by blast+
next
  assume "polygon_get_fx_data get_aggs fx_pair interval start_date end_date key =
        (reqs, out', Some df')"
  from polygon_success [OF this]
  show "\<exists>rows. get_aggs \<lparr>p_api_key = key, p_ticker = ''C:'' @ fx_pair, p_multiplier = 1,
                  p_timespan = interval, p_from = start_date, p_to = end_date\<rparr> = Inr rows
         \<and> to_datetime_ms (map a_timestamp rows) = Inr (index df')"
    and "names (columns df') =
          [''Open'', ''High'', ''Low'', ''Adj Close'', ''Volume'', ''vwap'']"
    by (auto simp: names_def)
qed

theorem normalizer_schema_witness:
  "(\<exists>out df. yf_get_fx_data (\<lambda>request. Inr sample_download) ''GBPUSD=X'' ''1m'' ''2025-03-05''
        ''2025-03-08'' = (out, Some df)
      \<and> index df = [At 1741132800000000000, At 1741132860000000000]
      \<and> set (names (columns df)) = {''Open'', ''High'', ''Low'', ''Adj Close''})
   \<and> (\<exists>reqs out df. polygon_get_fx_data (\<lambda>request. Inr sample_aggs) ''USDGBP'' ''minute''
        ''2024-01-15'' ''2025-01-15'' ''key'' = (reqs, out, Some df)
      \<and> to_datetime_ms (map a_timestamp sample_aggs) = Inr (index df)
      \<and> names (columns df) = [''Open'', ''High'', ''Low'', ''Adj Close'', ''Volume'', ''vwap''])"
proof -
  note n = normalizer_schema [of "\<lambda>request. Inr sample_download" "''GBPUSD=X''" "''1m''"
      "''2025-03-05''" "''2025-03-08''" _ _ "\<lambda>request. Inr sample_aggs" "''key''"]
  note p = normalizer_schema [of _ "''USDGBP''" "''minute''" "''2024-01-15''" "''2025-01-15''"
      _ _ "\<lambda>request. Inr sample_aggs" "''key''"]
  from n [THEN conjunct1, rule_format, OF yf_sample]
  have a: "\<exists>out df. yf_get_fx_data (\<lambda>request. Inr sample_download) ''GBPUSD=X'' ''1m'' ''2025-03-05''
        ''2025-03-08'' = (out, Some df)
      \<and> index df = [At 1741132800000000000, At 1741132860000000000]
      \<and> set (names (columns df)) = {''Open'', ''High'', ''Low'', ''Adj Close''}"
    by (simp add: yf_sample)
  from p [THEN conjunct2, rule_format, OF polygon_sample]
  have b: "\<exists>reqs out df. polygon_get_fx_data (\<lambda>request. Inr sample_aggs) ''USDGBP'' ''minute''
        ''2024-01-15'' ''2025-01-15'' ''key'' = (reqs, out, Some df)
      \<and> to_datetime_ms (map a_timestamp sample_aggs) = Inr (index df)
      \<and> names (columns df) = [''Open'', ''High'', ''Low'', ''Adj Close'', ''Volume'', ''vwap'']"
    by (simp add: polygon_sample)
  from a b show ?thesis by blast
qed

text \<open>
  C1, as the spec states it, fails on two Polygon bars: the table returned has six
  columns, \<open>Adj Close\<close> and \<open>vwap\<close> among them, which is neither of the two column
  sets of the claim.
\<close>

theorem canonical_schema_counterexample:
  "\<exists>reqs out df. polygon_get_fx_data (\<lambda>request. Inr sample_aggs) ''USDGBP'' ''minute''
        ''2024-01-15'' ''2025-01-15'' ''key'' = (reqs, out, Some df)
     \<and> names (columns df) = [''Open'', ''High'', ''Low'', ''Adj Close'', ''Volume'', ''vwap'']
     \<and> set (names (columns df)) \<noteq> {''Open'', ''High'', ''Low'', ''Close''}
     \<and> set (names (columns df)) \<noteq> {''Open'', ''High'', ''Low'', ''Close'', ''Volume''}"
proof -
  let ?ns = "[''Open'', ''High'', ''Low'', ''Adj Close'', ''Volume'', ''vwap'']"
  have in_ns: "''vwap'' \<in> set ?ns"
    by simp
  have out4: "''vwap'' \<notin> {''Open'', ''High'', ''Low'', ''Close''}"
    by simp
  have out5: "''vwap'' \<notin> {''Open'', ''High'', ''Low'', ''Close'', ''Volume''}"
    by simp
  have a: "set ?ns \<noteq> {''Open'', ''High'', ''Low'', ''Close''}"
  proof
    assume e: "set ?ns = {''Open'', ''High'', ''Low'', ''Close''}"
    from in_ns have "''vwap'' \<in> {''Open'', ''High'', ''Low'', ''Close''}"
      unfolding e .
    with out4 show False ..
  qed
  have b: "set ?ns \<noteq> {''Open'', ''High'', ''Low'', ''Close'', ''Volume''}"
  proof
    assume e: "set ?ns = {''Open'', ''High'', ''Low'', ''Close'', ''Volume''}"
    from in_ns have "''vwap'' \<in> {''Open'', ''High'', ''Low'', ''Close'', ''Volume''}"
      unfolding e .
    with out5 show False ..
  qed
  have n: "names (columns \<lparr>index = [At 1705276800000000000, At 1705276860000000000],
            axis_name = Some ''USDGBP'',
            columns = [(''Open'', [Finite 0.78515, Finite 0.78519]),
                       (''High'', [Finite 0.78518, Finite 0.78529]),
                       (''Low'', [Finite 0.78512, Finite 0.78517]),
                       (''Adj Close'', [Finite 0.78513, Finite 0.78528]),
                       (''Volume'', [Finite 39, Finite 45]),
                       (''vwap'', [Finite 0.7852, Finite 0.7853])]\<rparr>) = ?ns"
    by (simp add: names_def)
  show ?thesis
    unfolding polygon_sample
    apply (intro exI conjI)
       apply (rule refl)
      apply (rule n)
     apply (simp only: n a not_False_eq_True)
    apply (simp only: n b not_False_eq_True)
    done
qed

section \<open>The macro series\<close>

text \<open>
  A fetch succeeds exactly when the vendor serves a series, and then the table is the
  window of the series with the change columns added.
\<close>

lemma fred_failure:
  "get_series indicator = Inl e \<Longrightarrow>
   fetch_fred_data pad get_series indicator lo hi = ([''Error fetching data: '' @ str e], None)"
  by (simp add: fetch_fred_data_def guarded_def bind_exn_def)

lemma fred_success:
  assumes "get_series indicator = Inr data"
  shows "fetch_fred_data pad get_series indicator lo hi =
    ([], Some \<lparr>index = keep_rows (map (in_window lo hi) (s_index data)) (s_index data),
               axis_name = None,
               columns =
                 (let v = keep_rows (map (in_window lo hi) (s_index data)) (s_values data);
                      cs = col_set ''Percentage_Change'' (map (fround 4) (pct_change pad 1 v))
                             [(indicator, v)]
                  in if indicator = ''CPIAUCSL''
                     then col_set ''YoY_Inflation''
                            (map (fround 2) (map (\<lambda>q. fmul q (Finite 100)) (pct_change pad 12 v))) cs
                     else cs)\<rparr>)"
  using assms
  by (simp add: fetch_fred_data_def guarded_def bind_exn_def loc_def Let_def set_col_def
      col_get_def col_get_col_set map_of_col_set)

lemma fred_cases:
  assumes "fetch_fred_data pad get_series indicator lo hi = (out, Some df)"
  obtains data where "get_series indicator = Inr data"
  using assms by (cases "get_series indicator") (simp_all add: fred_failure)





text \<open>
  C7.  For every successful \<open>fetch_fred_data\<close> call the table has a column
  \<open>YoY_Inflation\<close> if and only if the indicator is \<open>CPIAUCSL\<close>, and a column
  \<open>Percentage_Change\<close> in both cases.  (The indicator names the value column, so an
  indicator spelled \<open>YoY_Inflation\<close> is set aside; no vendor series has that code.)
\<close>

theorem yoy_inflation_gating:
  assumes "fetch_fred_data pad get_series indicator start_date end_date = (out, Some df)"
    and "indicator \<noteq> ''YoY_Inflation''"
  shows "(''YoY_Inflation'' \<in> set (names (columns df)) \<longleftrightarrow> indicator = ''CPIAUCSL'')
       \<and> ''Percentage_Change'' \<in> set (names (columns df))"
proof -
  from assms(1) obtain data where d: "get_series indicator = Inr data"
    by (rule fred_cases)
  from assms(1) have "columns df =
      (let cs = col_set ''Percentage_Change''
                  (map (fround 4) (pct_change pad 1
                     (keep_rows (map (in_window start_date end_date) (s_index data))
                        (s_values data))))
                  [(indicator,
                    keep_rows (map (in_window start_date end_date) (s_index data))
                      (s_values data))]
       in if indicator = ''CPIAUCSL''
          then col_set ''YoY_Inflation''
                 (map (fround 2) (map (\<lambda>q. fmul q (Finite 100)) (pct_change pad 12
                    (keep_rows (map (in_window start_date end_date) (s_index data))
                       (s_values data))))) cs
          else cs)"
    using fred_success [of get_series indicator data pad start_date end_date, OF d]
    by (auto simp: Let_def)
  with assms(2) show ?thesis
    by (auto simp: Let_def col_set_def names_def)
qed

theorem yoy_inflation_gating_witness:
  "(\<exists>out df. fetch_fred_data False (\<lambda>i. Inr \<lparr>s_index = [At 0, At 1], s_values = [Finite 3, Finite 4]\<rparr>)
        ''CPIAUCSL'' 0 1 = (out, Some df)
      \<and> ''YoY_Inflation'' \<in> set (names (columns df))
      \<and> ''Percentage_Change'' \<in> set (names (columns df)))
   \<and> (\<exists>out df. fetch_fred_data False (\<lambda>i. Inr \<lparr>s_index = [At 0, At 1], s_values = [Finite 3, Finite 4]\<rparr>)
        ''UNRATE'' 0 1 = (out, Some df)
      \<and> ''YoY_Inflation'' \<notin> set (names (columns df))
      \<and> ''Percentage_Change'' \<in> set (names (columns df)))"
proof -
  let ?g = "\<lambda>i::string. (Inr \<lparr>s_index = [At 0, At 1], s_values = [Finite 3, Finite 4]\<rparr> :: exn + series)"
  obtain df1 where a: "fetch_fred_data False ?g ''CPIAUCSL'' 0 1 = ([], Some df1)"
    by (simp add: fred_success)
  obtain df2 where b: "fetch_fred_data False ?g ''UNRATE'' 0 1 = ([], Some df2)"
    by (simp add: fred_success)
  from yoy_inflation_gating [OF a] yoy_inflation_gating [OF b] a b show ?thesis
    by simp
qed









text \<open>
  C4.  A window that holds no observation is not treated as a failure by
  \<open>fetch_fred_data\<close>: nothing is printed and a table with no rows is returned, where
  \<open>polygon_get_fx_data\<close> checks \<open>df.empty\<close>, prints and returns \<open>None\<close>.
\<close>

theorem fetch_fred_data_empty_window:
  "fetch_fred_data pad (\<lambda>i. Inr \<lparr>s_index = [At 0, At 1], s_values = [Finite 1, Finite 2]\<rparr>)
     ''UNRATE'' 5 9 =
   ([], Some \<lparr>index = [], axis_name = None,
              columns = [(''UNRATE'', []), (''Percentage_Change'', [])]\<rparr>)"
  by (simp add: fetch_fred_data_def guarded_def bind_exn_def loc_def Let_def set_col_def
      col_get_def col_set_def keep_rows_def names_def pct_change_def shift_def ffill_def)

section \<open>The feature extractor on a table with rows\<close>

text \<open>
  With a close column and at least one row the call succeeds, and the table it returns
  is the table it was given, with the four columns written into it.
\<close>

lemma body_eq:
  assumes "col_get ''Adj Close'' (columns df) = Inr close"
  shows "calculate_volatility_body df =
    Inr (df\<lparr>columns :=
      col_set ''Volatility_Multiplier'' (volatility_multiplier (length (index df)) close)
       (col_set ''Average_Volatility'' (replicate (length (index df)) (average_volatility close))
         (col_set ''Volatility'' (volatility close)
           (col_set ''Log_Returns'' (log_returns close) (columns df))))\<rparr>)"
  using assms
  by (simp add: calculate_volatility_body_def bind_exn_def set_col_def Let_def
      col_get_col_set log_returns_def volatility_def average_volatility_def
      volatility_multiplier_def)

lemma calculate_volatility_eq:
  assumes "col_get ''Adj Close'' (columns (h r)) = Inr close" and "index (h r) \<noteq> []"
  shows "calculate_volatility h (Some r) =
    (h(r := (h r)\<lparr>columns :=
      col_set ''Volatility_Multiplier'' (volatility_multiplier (length (index (h r))) close)
       (col_set ''Average_Volatility''
          (replicate (length (index (h r))) (average_volatility close))
         (col_set ''Volatility'' (volatility close)
           (col_set ''Log_Returns'' (log_returns close) (columns (h r)))))\<rparr>),
     [], Inr (Some r))"
proof -
  from assms(1) have "columns (h r) \<noteq> []"
    by (auto simp: col_get_def)
  with assms(2) have "\<not> empty (h r)"
    by (simp add: empty_def)
  then show ?thesis
    by (simp add: calculate_volatility_def body_eq [OF assms(1)])
qed

lemma new_columns_read:
  fixes cs lr vo av vm
  defines "cs' \<equiv> col_set ''Volatility_Multiplier'' vm
       (col_set ''Average_Volatility'' av (col_set ''Volatility'' vo
          (col_set ''Log_Returns'' lr cs)))"
  shows "col_get ''Log_Returns'' cs' = Inr lr"
    and "col_get ''Volatility'' cs' = Inr vo"
    and "col_get ''Average_Volatility'' cs' = Inr av"
    and "col_get ''Volatility_Multiplier'' cs' = Inr vm"
  by (simp_all add: cs'_def col_get_col_set)

lemma length_log_returns: "length (log_returns close) = length close"
  by (simp add: log_returns_def length_shift)

lemma length_volatility: "length (volatility close) = length close"
  by (simp add: volatility_def length_log_returns)

lemma length_volatility_multiplier:
  "length (volatility_multiplier (length close) close) = length close"
  by (simp add: volatility_multiplier_def length_volatility)

lemma nth_log_returns:
  "t < length close \<Longrightarrow>
   log_returns close ! t = (if t = 0 then NaN else flog (fdiv (close ! t) (close ! (t - 1))))"
  by (simp add: log_returns_def length_shift nth_shift fdiv_NaN_right)

lemma nth_volatility:
  "t < length close \<Longrightarrow>
   volatility close ! t =
     (if t = 0 then NaN else fabs (flog (fdiv (close ! t) (close ! (t - 1)))))"
  by (simp add: volatility_def length_log_returns nth_log_returns)

lemma nth_volatility_multiplier:
  "t < length close \<Longrightarrow>
   volatility_multiplier (length close) close ! t =
     fround 2 (fdiv (volatility close ! t) (average_volatility close))"
  by (simp add: volatility_multiplier_def length_volatility)

lemma column_length:
  assumes "well_formed df" and "col_get name (columns df) = Inr w"
  shows "length w = length (index df)"
proof -
  from assms(2) have "(name, w) \<in> set (columns df)"
    by (auto simp: col_get_def split: option.splits dest: map_of_SomeD)
  with assms(1) show ?thesis
    by (auto simp: well_formed_def list_all_iff)
qed

lemmas column_defs =
  log_returns_def volatility_def average_volatility_def volatility_multiplier_def
  shift_def mean_def isna_def

lemma names_col_set:
  "names (col_set n v cs) = (if n \<in> set (names cs) then names cs else names cs @ [n])"
proof -
  have "map fst (map (\<lambda>(k, w). if k = n then (k, v) else (k, w)) cs) = map fst cs"
    by (induction cs) auto
  then show ?thesis
    by (simp add: col_set_def names_def)
qed

lemma length_col_set: "length cs \<le> length (col_set n v cs)"
  by (simp add: col_set_def)

lemma length_names: "length (names cs) = length cs"
  by (simp add: names_def)

lemma take_names_col_set:
  "k \<le> length cs \<Longrightarrow> take k (names (col_set n v cs)) = take k (names cs)"
  by (simp add: names_col_set length_names)

lemma filter_col_set:
  "n \<in> S \<Longrightarrow> filter (\<lambda>(k, w). k \<notin> S) (col_set n v cs) = filter (\<lambda>(k, w). k \<notin> S) cs"
proof -
  assume n: "n \<in> S"
  have "filter (\<lambda>(k, w). k \<notin> S) (map (\<lambda>(k, w). if k = n then (k, v) else (k, w)) cs) =
        filter (\<lambda>(k, w). k \<notin> S) cs"
    using n by (induction cs) (auto split: if_splits)
  with n show ?thesis
    by (simp add: col_set_def)
qed

lemma three_rows_close:
  "col_get ''Adj Close'' (columns (heap_of three_rows 0)) =
     Inr [Finite 100, Finite 101, Finite 100.5]"
  by (simp add: heap_of_def three_rows_def col_get_def)

text \<open>
  C5, as the code has it.  \<open>calculate_volatility\<close> writes into the table it is given
  and returns that same table; no other table changes.  The rows and the label are as
  before; every original column keeps its place, and keeps its values unless it bears
  one of the four new names; the four names are columns afterwards, and where the
  input had none of them they follow the original columns in the order
  \<open>Log_Returns\<close>, \<open>Volatility\<close>, \<open>Average_Volatility\<close>, \<open>Volatility_Multiplier\<close>.
\<close>

theorem calculate_volatility_in_place:
  assumes "\<not> empty (h r)" and "col_get ''Adj Close'' (columns (h r)) = Inr close"
  shows "\<exists>df'. calculate_volatility h (Some r) = (h(r := df'), [], Inr (Some r))
      \<and> index df' = index (h r) \<and> axis_name df' = axis_name (h r)
      \<and> take (length (columns (h r))) (names (columns df')) = names (columns (h r))
      \<and> filter (\<lambda>(n, w). n \<notin> set new_columns) (columns df') =
          filter (\<lambda>(n, w). n \<notin> set new_columns) (columns (h r))
      \<and> set new_columns \<subseteq> set (names (columns df'))
      \<and> (set new_columns \<inter> set (names (columns (h r))) = {} \<longrightarrow>
           names (columns df') = names (columns (h r)) @ new_columns)"
proof -
  let ?cs = "columns (h r)"
  let ?n = "length (index (h r))"
  define c1 where "c1 = col_set ''Log_Returns'' (log_returns close) ?cs"
  define c2 where "c2 = col_set ''Volatility'' (volatility close) c1"
  define c3 where "c3 = col_set ''Average_Volatility'' (replicate ?n (average_volatility close)) c2"
  define c4 where "c4 = col_set ''Volatility_Multiplier'' (volatility_multiplier ?n close) c3"
  from assms(1) have ne: "index (h r) \<noteq> []"
    by (simp add: empty_def)
  have run: "calculate_volatility h (Some r) = (h(r := (h r)\<lparr>columns := c4\<rparr>), [], Inr (Some r))"
    unfolding c4_def c3_def c2_def c1_def
    by (rule calculate_volatility_eq [of h r close, OF assms(2) ne])
  have l1: "length ?cs \<le> length c1" and l2: "length ?cs \<le> length c2"
    and l3: "length ?cs \<le> length c3"
    using length_col_set [of ?cs "''Log_Returns''" "log_returns close"]
      length_col_set [of c1 "''Volatility''" "volatility close"]
      length_col_set [of c2 "''Average_Volatility''" "replicate ?n (average_volatility close)"]
    by (simp_all add: c1_def c2_def c3_def)
  have pre: "take (length ?cs) (names c4) = names ?cs"
    using l1 l2 l3
    by (simp add: c4_def c3_def c2_def take_names_col_set)
      (simp add: c1_def take_names_col_set length_names [symmetric])
  have keep: "filter (\<lambda>(n, w). n \<notin> set new_columns) c4 =
              filter (\<lambda>(n, w). n \<notin> set new_columns) ?cs"
  proof -
    have m: "''Log_Returns'' \<in> set new_columns" "''Volatility'' \<in> set new_columns"
      "''Average_Volatility'' \<in> set new_columns"
      "''Volatility_Multiplier'' \<in> set new_columns"
      by (simp_all add: new_columns_def)
    show ?thesis
      by (simp only: c4_def c3_def c2_def c1_def m filter_col_set)
  qed
  have has: "set new_columns \<subseteq> set (names c4)"
    by (auto simp: c4_def c3_def c2_def c1_def names_col_set new_columns_def)
  have fresh: "names c4 = names ?cs @ new_columns"
    if "set new_columns \<inter> set (names ?cs) = {}"
    using that by (simp add: c4_def c3_def c2_def c1_def names_col_set new_columns_def)
  from run pre keep has fresh show ?thesis
    by (intro exI [of _ "(h r)\<lparr>columns := c4\<rparr>"]) simp
qed

theorem calculate_volatility_in_place_witness:
  "\<exists>df'. calculate_volatility (heap_of three_rows) (Some 0) =
           ((heap_of three_rows)(0 := df'), [], Inr (Some 0))
      \<and> index df' = [At 0, At 60000000000, At 120000000000]
      \<and> names (columns df') =
          [''Open'', ''High'', ''Low'', ''Adj Close'', ''Log_Returns'', ''Volatility'',
           ''Average_Volatility'', ''Volatility_Multiplier'']"
proof -
  have ne: "\<not> empty (heap_of three_rows 0)"
    by (simp add: heap_of_def three_rows_def empty_def)
  have fresh: "set new_columns \<inter> set (names (columns (heap_of three_rows 0))) = {}"
    by (simp add: heap_of_def three_rows_def new_columns_def names_def)
  have idx: "index (heap_of three_rows 0) = [At 0, At 60000000000, At 120000000000]"
    and old: "names (columns (heap_of three_rows 0)) @ new_columns =
          [''Open'', ''High'', ''Low'', ''Adj Close'', ''Log_Returns'', ''Volatility'',
           ''Average_Volatility'', ''Volatility_Multiplier'']"
    by (simp_all add: heap_of_def three_rows_def new_columns_def names_def)
  from calculate_volatility_in_place [of "heap_of three_rows" 0, OF ne three_rows_close]
  obtain df' where
    "calculate_volatility (heap_of three_rows) (Some 0) =
       ((heap_of three_rows)(0 := df'), [], Inr (Some 0))"
    "index df' = index (heap_of three_rows 0)"
    "set new_columns \<inter> set (names (columns (heap_of three_rows 0))) = {} \<longrightarrow>
       names (columns df') = names (columns (heap_of three_rows 0)) @ new_columns"
    by blast
  with fresh idx old show ?thesis
    by (intro exI [of _ df']) simp
qed

text \<open>
  C5, as the spec states it, fails: after the call the caller's table has eight columns
  where it had four, so the input was not left unchanged.
\<close>

theorem input_table_mutated_counterexample:
  "\<exists>h' out res. calculate_volatility (heap_of three_rows) (Some 0) = (h', out, res)
     \<and> names (columns (heap_of three_rows 0)) = [''Open'', ''High'', ''Low'', ''Adj Close'']
     \<and> names (columns (h' 0)) =
          [''Open'', ''High'', ''Low'', ''Adj Close'', ''Log_Returns'', ''Volatility'',
           ''Average_Volatility'', ''Volatility_Multiplier'']
     \<and> h' 0 \<noteq> heap_of three_rows 0"
proof -
  let ?close = "[Finite 100, Finite 101, Finite 100.5]"
  define cs where "cs =
      col_set ''Volatility_Multiplier''
        (volatility_multiplier (length (index (heap_of three_rows 0))) ?close)
        (col_set ''Average_Volatility''
           (replicate (length (index (heap_of three_rows 0))) (average_volatility ?close))
          (col_set ''Volatility'' (volatility ?close)
            (col_set ''Log_Returns'' (log_returns ?close) (columns (heap_of three_rows 0)))))"
  define h' where "h' = (heap_of three_rows)(0 := (heap_of three_rows 0)\<lparr>columns := cs\<rparr>)"
  have ne: "index (heap_of three_rows 0) \<noteq> []"
    by (simp add: heap_of_def three_rows_def)
  have run: "calculate_volatility (heap_of three_rows) (Some 0) = (h', [], Inr (Some 0))"
    using calculate_volatility_eq [of "heap_of three_rows" 0 ?close, OF three_rows_close ne]
    by (simp only: h'_def cs_def)
  have old: "names (columns (heap_of three_rows 0)) = [''Open'', ''High'', ''Low'', ''Adj Close'']"
    by (simp add: heap_of_def three_rows_def names_def)
  have new: "names (columns (h' 0)) =
          [''Open'', ''High'', ''Low'', ''Adj Close'', ''Log_Returns'', ''Volatility'',
           ''Average_Volatility'', ''Volatility_Multiplier'']"
    by (simp add: h'_def cs_def names_col_set old)
  from old new have "h' 0 \<noteq> heap_of three_rows 0"
    by auto
  with run old new show ?thesis
    by blast
qed

subsection \<open>Numbers of the example\<close>

lemma rint_eq:
  assumes "of_int k - 1 / 2 < x" and "x < of_int k + 1 / 2"
  shows "rint x = k"
proof -
  have "\<lfloor>x\<rfloor> = k - 1 \<or> \<lfloor>x\<rfloor> = k"
    using assms by linarith
  then show ?thesis
  proof
    assume f: "\<lfloor>x\<rfloor> = k - 1"
    with assms show ?thesis
      by (simp add: rint_def Let_def)
  next
    assume f: "\<lfloor>x\<rfloor> = k"
    then have "of_int k \<le> x" by linarith
    with f assms show ?thesis
      by (simp add: rint_def Let_def)
  qed
qed

lemma exp_upper_eighth:
  fixes x :: real
  assumes "0 \<le> x" and "x \<le> 1"
  shows "exp x \<le> (1 + x / 8 + (x / 8)\<^sup>2) ^ 8"
proof -
  have "exp x = exp (of_nat 8 * (x / 8))"
    by simp
  also have "\<dots> = exp (x / 8) ^ 8"
    by (rule exp_of_nat_mult)
  also from assms have "\<dots> \<le> (1 + x / 8 + (x / 8)\<^sup>2) ^ 8"
    by (intro power_mono exp_bound) simp_all
  finally show ?thesis .
qed

lemma ln_lower:
  fixes a x :: real
  assumes "0 \<le> x" and "x \<le> 1" and "(1 + x / 8 + (x / 8)\<^sup>2) ^ 8 < a"
  shows "x < ln a"
proof -
  from exp_upper_eighth [OF assms(1,2)] assms(3) have e: "exp x < a"
    by simp
  then have "0 < a"
    using exp_gt_zero [of x] by linarith
  with e show ?thesis
    by (metis exp_less_cancel_iff exp_ln)
qed

lemma ln_upper:
  fixes a x :: real
  assumes "0 \<le> x" and "0 < a" and "a < 1 + x + x\<^sup>2 / 2"
  shows "ln a < x"
proof -
  from exp_lower_Taylor_quadratic [OF assms(1)] assms(3) have "a < exp x"
    by simp
  with assms(2) show ?thesis
    by (metis exp_less_cancel_iff exp_ln)
qed

lemma ln_101_100: "(994 / 100000 :: real) < ln (101 / 100)" "ln (101 / 100) < (9951 / 1000000 :: real)"
proof -
  show "(994 / 100000 :: real) < ln (101 / 100)"
    by (rule ln_lower) (simp_all add: power2_eq_square power_divide)
  show "ln (101 / 100) < (9951 / 1000000 :: real)"
    by (rule ln_upper) (simp_all add: power2_eq_square)
qed

lemma ln_202_201: "(496 / 100000 :: real) < ln (202 / 201)" "ln (202 / 201) < (498 / 100000 :: real)"
proof -
  show "(496 / 100000 :: real) < ln (202 / 201)"
    by (rule ln_lower) (simp_all add: power2_eq_square power_divide)
  show "ln (202 / 201) < (498 / 100000 :: real)"
    by (rule ln_upper) (simp_all add: power2_eq_square)
qed

lemma ln_201_202: "ln (201 / 202 :: real) = - ln (202 / 201)"
  using ln_inverse [of "202 / 201 :: real"] by simp

lemma example_columns:
  fixes v1 v2 :: real
  defines "v1 \<equiv> ln (101 / 100)" and "v2 \<equiv> ln (202 / 201)"
  shows "log_returns [Finite 100, Finite 101, Finite 100.5] = [NaN, Finite v1, Finite (- v2)]"
    and "volatility [Finite 100, Finite 101, Finite 100.5] = [NaN, Finite v1, Finite v2]"
    and "average_volatility [Finite 100, Finite 101, Finite 100.5] = Finite ((v1 + v2) / 2)"
  by (simp_all add: column_defs ln_201_202 v1_def v2_def)

lemma example_multiplier:
  fixes v1 v2 :: real
  assumes "994 / 100000 < v1" "v1 < 9951 / 1000000" "496 / 100000 < v2" "v2 < 498 / 100000"
  shows "fround 2 (fdiv (Finite v1) (Finite ((v1 + v2) / 2))) = Finite (133 / 100)"
    and "fround 2 (fdiv (Finite v2) (Finite ((v1 + v2) / 2))) = Finite (67 / 100)"
proof -
  from assms have s: "0 < v1 + v2"
    by linarith
  have a: "rint (v1 / ((v1 + v2) / 2) * 100) = 133"
  proof (rule rint_eq)
    from assms s show "of_int 133 - 1 / 2 < v1 / ((v1 + v2) / 2) * 100"
      by (simp add: field_simps)
    from assms s show "v1 / ((v1 + v2) / 2) * 100 < of_int 133 + 1 / 2"
      by (simp add: field_simps)
  qed
  have b: "rint (v2 / ((v1 + v2) / 2) * 100) = 67"
  proof (rule rint_eq)
    from assms s show "of_int 67 - 1 / 2 < v2 / ((v1 + v2) / 2) * 100"
      by (simp add: field_simps)
    from assms s show "v2 / ((v1 + v2) / 2) * 100 < of_int 67 + 1 / 2"
      by (simp add: field_simps)
  qed
  from s have nz: "(v1 + v2) / 2 \<noteq> 0"
    by simp
  from nz a show "fround 2 (fdiv (Finite v1) (Finite ((v1 + v2) / 2))) = Finite (133 / 100)"
    by simp
  from nz b show "fround 2 (fdiv (Finite v2) (Finite ((v1 + v2) / 2))) = Finite (67 / 100)"
    by simp
qed

subsection \<open>Which fields are null\<close>

lemma fadd_finite_or_posinf:
  "finite_or_posinf a \<Longrightarrow> finite_or_posinf b \<Longrightarrow> finite_or_posinf (fadd a b)"
  by (cases a; cases b) simp_all

lemma foldl_fadd_finite_or_posinf:
  "finite_or_posinf acc \<Longrightarrow> list_all finite_or_posinf ys \<Longrightarrow>
   finite_or_posinf (foldl fadd acc ys)"
  by (induction ys arbitrary: acc) (simp_all add: fadd_finite_or_posinf)

lemma mean_not_null:
  assumes "\<forall>a\<in>set xs. a \<noteq> NegInf" and "\<exists>a\<in>set xs. \<not> isna a"
  shows "\<not> isna (mean xs)"
proof -
  let ?ys = "filter (\<lambda>a. \<not> isna a) xs"
  from assms(2) have ne: "?ys \<noteq> []"
    by (simp add: filter_empty_conv)
  have "finite_or_posinf a" if "a \<in> set xs" "\<not> isna a" for a
  proof -
    from that(1) assms(1) have "a \<noteq> NegInf" by blast
    with that(2) show ?thesis
      by (cases a) (simp_all add: isna_def)
  qed
  then have "list_all finite_or_posinf ?ys"
    by (simp add: list_all_iff)
  then have "finite_or_posinf (foldl fadd (Finite 0) ?ys)"
    by (simp add: foldl_fadd_finite_or_posinf)
  moreover from ne have "0 < length ?ys"
    by simp
  ultimately have "fdiv (foldl fadd (Finite 0) ?ys) (Finite (of_nat (length ?ys))) \<noteq> NaN"
    by (cases "foldl fadd (Finite 0) ?ys") (simp_all add: signed_inf_def)
  with ne show ?thesis
    by (simp add: mean_def isna_def Let_def)
qed

lemma volatility_not_neginf: "a \<in> set (volatility close) \<Longrightarrow> a \<noteq> NegInf"
proof -
  assume "a \<in> set (volatility close)"
  then obtain b where "a = fabs b"
    by (auto simp: volatility_def)
  then show ?thesis
    by (cases b) simp_all
qed

lemma multiplier_not_null:
  assumes "\<not> isna avg" and "avg \<noteq> Finite 0"
  shows "\<not> isna (fround 2 (fdiv (Finite v) avg))"
  using assms by (cases avg) (simp_all add: isna_def)

text \<open>
  C2, as the code has it.  On a table with a close column and \<open>N \<ge> 1\<close> rows the log
  return, the volatility and the multiplier are null at row \<open>0\<close>.  At a row
  \<open>t \<ge> 1\<close> whose close and whose previous close are both finite with a positive
  ratio (two prices, say), the log return and the volatility are not null, and the
  multiplier is not null provided the average volatility is not zero.
\<close>

theorem volatility_fields_defined:
  assumes "col_get ''Adj Close'' (columns (h r)) = Inr close" and "well_formed (h r)"
    and "index (h r) \<noteq> []"
  shows "\<exists>h' lr vol avg m. calculate_volatility h (Some r) = (h', [], Inr (Some r))
      \<and> col_get ''Log_Returns'' (columns (h' r)) = Inr lr
      \<and> col_get ''Volatility'' (columns (h' r)) = Inr vol
      \<and> col_get ''Average_Volatility'' (columns (h' r)) = Inr avg
      \<and> col_get ''Volatility_Multiplier'' (columns (h' r)) = Inr m
      \<and> length lr = length close \<and> length vol = length close
      \<and> length avg = length close \<and> length m = length close
      \<and> isna (lr ! 0) \<and> isna (vol ! 0) \<and> isna (m ! 0)
      \<and> (\<forall>t a b. 1 \<le> t \<and> t < length close \<and> close ! (t - 1) = Finite a
            \<and> close ! t = Finite b \<and> 0 < b / a \<longrightarrow>
            \<not> isna (lr ! t) \<and> \<not> isna (vol ! t)
            \<and> (avg ! t \<noteq> Finite 0 \<longrightarrow> \<not> isna (m ! t)))"
proof -
  let ?n = "length (index (h r))"
  have n: "length close = ?n"
    by (rule column_length [OF assms(2) assms(1)])
  with assms(3) have pos: "0 < length close"
    by simp
  define lr where "lr = log_returns close"
  define vol where "vol = volatility close"
  define avg where "avg = replicate ?n (average_volatility close)"
  define m where "m = volatility_multiplier ?n close"
  define h' where "h' = h(r := (h r)\<lparr>columns :=
      col_set ''Volatility_Multiplier'' m (col_set ''Average_Volatility'' avg
        (col_set ''Volatility'' vol (col_set ''Log_Returns'' lr (columns (h r)))))\<rparr>)"
  have run: "calculate_volatility h (Some r) = (h', [], Inr (Some r))"
    unfolding h'_def lr_def vol_def avg_def m_def
    by (rule calculate_volatility_eq [of h r close, OF assms(1) assms(3)])
  have cols: "col_get ''Log_Returns'' (columns (h' r)) = Inr lr"
    "col_get ''Volatility'' (columns (h' r)) = Inr vol"
    "col_get ''Average_Volatility'' (columns (h' r)) = Inr avg"
    "col_get ''Volatility_Multiplier'' (columns (h' r)) = Inr m"
    by (simp_all add: h'_def new_columns_read)
  have lens: "length lr = length close" "length vol = length close"
    "length avg = length close" "length m = length close"
    using n length_volatility_multiplier [of close]
    by (simp_all add: lr_def vol_def avg_def m_def length_log_returns length_volatility)
  have first: "isna (lr ! 0)" "isna (vol ! 0)" "isna (m ! 0)"
    using pos n nth_volatility_multiplier [of 0 close]
    by (simp_all add: lr_def vol_def m_def nth_log_returns nth_volatility isna_def)
  have later: "\<not> isna (lr ! t) \<and> \<not> isna (vol ! t) \<and> (avg ! t \<noteq> Finite 0 \<longrightarrow> \<not> isna (m ! t))"
    if t: "1 \<le> t" "t < length close" and a: "close ! (t - 1) = Finite a"
      and b: "close ! t = Finite b" and q: "0 < b / a" for t a b
  proof -
    from q have a0: "a \<noteq> 0"
      by (cases "a = 0") simp_all
    from t a b q a0 have lrt: "lr ! t = Finite (ln (b / a))"
      by (simp add: lr_def nth_log_returns)
    from t a b q a0 have volt: "vol ! t = Finite \<bar>ln (b / a)\<bar>"
      by (simp add: vol_def nth_volatility)
    from t have "vol ! t \<in> set vol"
      by (simp add: vol_def length_volatility)
    with volt have "\<exists>x\<in>set (volatility close). \<not> isna x"
      by (auto simp: vol_def isna_def)
    with volatility_not_neginf have mean: "\<not> isna (average_volatility close)"
      unfolding average_volatility_def by (intro mean_not_null) auto
    from t n have avgt: "avg ! t = average_volatility close"
      by (simp add: avg_def)
    from t n volt have mt: "m ! t = fround 2 (fdiv (Finite \<bar>ln (b / a)\<bar>) (average_volatility close))"
      using nth_volatility_multiplier [of t close] by (simp add: m_def vol_def)
    from lrt volt mean avgt mt show ?thesis
      by (auto simp: isna_def dest: multiplier_not_null [unfolded isna_def])
  qed
  from run cols lens first later show ?thesis
    by blast
qed

theorem volatility_fields_defined_witness:
  "\<exists>h' lr vol avg m. calculate_volatility (heap_of three_rows) (Some 0) = (h', [], Inr (Some 0))
      \<and> col_get ''Log_Returns'' (columns (h' 0)) = Inr lr
      \<and> col_get ''Volatility'' (columns (h' 0)) = Inr vol
      \<and> col_get ''Average_Volatility'' (columns (h' 0)) = Inr avg
      \<and> col_get ''Volatility_Multiplier'' (columns (h' 0)) = Inr m
      \<and> isna (lr ! 0) \<and> isna (vol ! 0) \<and> isna (m ! 0)
      \<and> \<not> isna (lr ! 1) \<and> \<not> isna (vol ! 1) \<and> \<not> isna (m ! 1)
      \<and> \<not> isna (lr ! 2) \<and> \<not> isna (vol ! 2) \<and> \<not> isna (m ! 2)"
proof -
  let ?close = "[Finite 100, Finite 101, Finite 100.5]"
  have wf: "well_formed (heap_of three_rows 0)"
    by (simp add: heap_of_def three_rows_def well_formed_def)
  have ne: "index (heap_of three_rows 0) \<noteq> []"
    and len: "length (index (heap_of three_rows 0)) = 3"
    by (simp_all add: heap_of_def three_rows_def)
  from volatility_fields_defined [of "heap_of three_rows" 0 ?close, OF three_rows_close wf ne]
  obtain h' lr vol avg m where
    run: "calculate_volatility (heap_of three_rows) (Some 0) = (h', [], Inr (Some 0))"
    and g: "col_get ''Log_Returns'' (columns (h' 0)) = Inr lr"
      "col_get ''Volatility'' (columns (h' 0)) = Inr vol"
      "col_get ''Average_Volatility'' (columns (h' 0)) = Inr avg"
      "col_get ''Volatility_Multiplier'' (columns (h' 0)) = Inr m"
    and first: "isna (lr ! 0)" "isna (vol ! 0)" "isna (m ! 0)"
    and later: "\<forall>t a b. 1 \<le> t \<and> t < length ?close \<and> ?close ! (t - 1) = Finite a
            \<and> ?close ! t = Finite b \<and> 0 < b / a \<longrightarrow>
            \<not> isna (lr ! t) \<and> \<not> isna (vol ! t)
            \<and> (avg ! t \<noteq> Finite 0 \<longrightarrow> \<not> isna (m ! t))"
    by blast
  define cs where "cs =
      col_set ''Volatility_Multiplier'' (volatility_multiplier 3 ?close)
        (col_set ''Average_Volatility'' (replicate 3 (average_volatility ?close))
          (col_set ''Volatility'' (volatility ?close)
            (col_set ''Log_Returns'' (log_returns ?close) (columns (heap_of three_rows 0)))))"
  have "calculate_volatility (heap_of three_rows) (Some 0) =
      ((heap_of three_rows)(0 := (heap_of three_rows 0)\<lparr>columns := cs\<rparr>), [], Inr (Some 0))"
    using calculate_volatility_eq [of "heap_of three_rows" 0 ?close, OF three_rows_close ne]
    by (simp only: cs_def len)
  with run have "h' = (heap_of three_rows)(0 := (heap_of three_rows 0)\<lparr>columns := cs\<rparr>)"
    by simp
  then have hr: "columns (h' 0) = cs"
    by simp
  have "col_get ''Average_Volatility'' (columns (h' 0)) =
      Inr (replicate 3 (average_volatility ?close))"
    unfolding hr cs_def by (rule new_columns_read)
  with g(3) have avg: "avg = replicate 3 (average_volatility ?close)"
    by simp
  define s :: real where "s = ln (101 / 100) + ln (202 / 201)"
  have pos: "0 < s"
    unfolding s_def using ln_101_100(1) ln_202_201(1) by linarith
  have av: "average_volatility ?close = Finite (s / 2)"
    unfolding s_def by (rule example_columns(3))
  have nz: "avg ! 1 \<noteq> Finite 0" "avg ! 2 \<noteq> Finite 0"
    unfolding avg av using pos by (simp_all add: numeral_3_eq_3)
  from later [rule_format, of 1 100 101] nz(1)
  have one: "\<not> isna (lr ! 1)" "\<not> isna (vol ! 1)" "\<not> isna (m ! 1)"
    by simp_all
  from later [rule_format, of 2 101 "100.5"] nz(2)
  have two: "\<not> isna (lr ! 2)" "\<not> isna (vol ! 2)" "\<not> isna (m ! 2)"
    by simp_all
  from run g first one two show ?thesis
    by blast
qed

text \<open>
  C2, as the spec states it, fails on the closes \<open>1, 1, null\<close>: at row \<open>1\<close> the previous
  close is \<open>1\<close> and the multiplier is null (the average volatility is \<open>0\<close>, and
  \<open>0 / 0\<close> is \<open>NaN\<close>); at row \<open>2\<close> the previous close is \<open>1\<close> and the log return is
  null, because the close of the row itself is.
\<close>

theorem null_fields_counterexample:
  "\<exists>h'. calculate_volatility (heap_of flat_then_null) (Some 0) = (h', [], Inr (Some 0))
     \<and> col_get ''Adj Close'' (columns (h' 0)) = Inr [Finite 1, Finite 1, NaN]
     \<and> col_get ''Log_Returns'' (columns (h' 0)) = Inr [NaN, Finite 0, NaN]
     \<and> col_get ''Volatility'' (columns (h' 0)) = Inr [NaN, Finite 0, NaN]
     \<and> col_get ''Average_Volatility'' (columns (h' 0)) = Inr [Finite 0, Finite 0, Finite 0]
     \<and> col_get ''Volatility_Multiplier'' (columns (h' 0)) = Inr [NaN, NaN, NaN]"
proof -
  let ?close = "[Finite 1, Finite 1, NaN]"
  define cs where "cs =
      col_set ''Volatility_Multiplier'' (volatility_multiplier 3 ?close)
        (col_set ''Average_Volatility'' (replicate 3 (average_volatility ?close))
          (col_set ''Volatility'' (volatility ?close)
            (col_set ''Log_Returns'' (log_returns ?close) (columns (heap_of flat_then_null 0)))))"
  define h' where "h' = (heap_of flat_then_null)(0 := (heap_of flat_then_null 0)\<lparr>columns := cs\<rparr>)"
  have hr: "columns (h' 0) = cs"
    by (simp add: h'_def)
  have close: "col_get ''Adj Close'' (columns (heap_of flat_then_null 0)) = Inr ?close"
    by (simp add: heap_of_def flat_then_null_def col_get_def)
  have ne: "index (heap_of flat_then_null 0) \<noteq> []"
    and len: "length (index (heap_of flat_then_null 0)) = 3"
    by (simp_all add: heap_of_def flat_then_null_def)
  have run: "calculate_volatility (heap_of flat_then_null) (Some 0) = (h', [], Inr (Some 0))"
    using calculate_volatility_eq [of "heap_of flat_then_null" 0 ?close, OF close ne]
    by (simp only: h'_def cs_def len)
  have c0: "col_get ''Adj Close'' (columns (h' 0)) = Inr ?close"
    unfolding hr cs_def using close by (simp add: col_get_col_set)
  have g: "col_get ''Log_Returns'' (columns (h' 0)) = Inr (log_returns ?close)"
    "col_get ''Volatility'' (columns (h' 0)) = Inr (volatility ?close)"
    "col_get ''Average_Volatility'' (columns (h' 0)) =
       Inr (replicate 3 (average_volatility ?close))"
    "col_get ''Volatility_Multiplier'' (columns (h' 0)) =
       Inr (volatility_multiplier 3 ?close)"
    unfolding hr cs_def by (rule new_columns_read)+
  have v: "log_returns ?close = [NaN, Finite 0, NaN]"
    "volatility ?close = [NaN, Finite 0, NaN]"
    "replicate 3 (average_volatility ?close) = [Finite 0, Finite 0, Finite 0]"
    "volatility_multiplier 3 ?close = [NaN, NaN, NaN]"
    by (simp_all add: column_defs numeral_3_eq_3)
  from run c0 g show ?thesis
    unfolding v by blast
qed

subsection \<open>The example of the spec\<close>

text \<open>
  C3.  On the closes \<open>100.0, 101.0, 100.5\<close> the log returns are null, \<open>ln 1.01\<close> and
  \<open>ln (100.5 / 101)\<close>, within \<open>0.00001\<close> of \<open>0.00995\<close> and \<open>-0.00497\<close>; the volatilities
  are their absolute values; the average volatility is the mean of the two that are
  not null, within \<open>0.00001\<close> of \<open>0.00746\<close>; and the multipliers are null, \<open>1.33\<close> and
  \<open>0.67\<close>.
\<close>

theorem volatility_example:
  assumes "col_get ''Adj Close'' (columns (h r)) = Inr [Finite 100, Finite 101, Finite 100.5]"
    and "length (index (h r)) = 3"
  shows "\<exists>h' lr1 lr2 avg. calculate_volatility h (Some r) = (h', [], Inr (Some r))
      \<and> col_get ''Log_Returns'' (columns (h' r)) = Inr [NaN, Finite lr1, Finite lr2]
      \<and> \<bar>lr1 - 0.00995\<bar> < 0.00001 \<and> \<bar>lr2 - (- 0.00497)\<bar> < 0.00001
      \<and> col_get ''Volatility'' (columns (h' r)) = Inr [NaN, Finite \<bar>lr1\<bar>, Finite \<bar>lr2\<bar>]
      \<and> \<bar>\<bar>lr1\<bar> - 0.00995\<bar> < 0.00001 \<and> \<bar>\<bar>lr2\<bar> - 0.00497\<bar> < 0.00001
      \<and> col_get ''Average_Volatility'' (columns (h' r)) = Inr [Finite avg, Finite avg, Finite avg]
      \<and> avg = (\<bar>lr1\<bar> + \<bar>lr2\<bar>) / 2 \<and> \<bar>avg - 0.00746\<bar> < 0.00001
      \<and> col_get ''Volatility_Multiplier'' (columns (h' r)) =
            Inr [NaN, Finite 1.33, Finite 0.67]"
proof -
  let ?close = "[Finite 100, Finite 101, Finite 100.5]"
  define v1 :: real where "v1 = ln (101 / 100)"
  define v2 :: real where "v2 = ln (202 / 201)"
  have b: "994 / 100000 < v1" "v1 < 9951 / 1000000" "496 / 100000 < v2" "v2 < 498 / 100000"
    using ln_101_100 ln_202_201 by (simp_all add: v1_def v2_def)
  define cs where "cs =
      col_set ''Volatility_Multiplier'' (volatility_multiplier 3 ?close)
        (col_set ''Average_Volatility'' (replicate 3 (average_volatility ?close))
          (col_set ''Volatility'' (volatility ?close)
            (col_set ''Log_Returns'' (log_returns ?close) (columns (h r)))))"
  define h' where "h' = h(r := (h r)\<lparr>columns := cs\<rparr>)"
  have hr: "columns (h' r) = cs"
    by (simp add: h'_def)
  from assms(2) have ne: "index (h r) \<noteq> []"
    by auto
  have run: "calculate_volatility h (Some r) = (h', [], Inr (Some r))"
    using calculate_volatility_eq [of h r ?close, OF assms(1) ne]
    by (simp only: h'_def cs_def assms(2))
  have lr: "log_returns ?close = [NaN, Finite v1, Finite (- v2)]"
    and vol: "volatility ?close = [NaN, Finite v1, Finite v2]"
    and avg: "average_volatility ?close = Finite ((v1 + v2) / 2)"
    unfolding v1_def v2_def by (rule example_columns)+
  have rep: "replicate 3 a = [a, a, a]" for a :: float64
    by (simp add: numeral_3_eq_3)
  have e0: "fround 2 (fdiv NaN a) = NaN" for a
    by simp
  have e1: "fround 2 (fdiv (Finite v1) (Finite ((v1 + v2) / 2))) = Finite 1.33"
    and e2: "fround 2 (fdiv (Finite v2) (Finite ((v1 + v2) / 2))) = Finite 0.67"
    using example_multiplier [OF b] by simp_all
  have m: "volatility_multiplier 3 ?close = [NaN, Finite 1.33, Finite 0.67]"
    unfolding volatility_multiplier_def vol avg rep
    by (simp only: list.map zip_Cons_Cons zip_Nil prod.case e0 e1 e2)
  from b have abs1: "\<bar>v1\<bar> = v1" and abs2: "\<bar>- v2\<bar> = v2"
    by simp_all
  have g: "col_get ''Log_Returns'' (columns (h' r)) = Inr (log_returns ?close)"
    "col_get ''Volatility'' (columns (h' r)) = Inr (volatility ?close)"
    "col_get ''Average_Volatility'' (columns (h' r)) =
       Inr (replicate 3 (average_volatility ?close))"
    "col_get ''Volatility_Multiplier'' (columns (h' r)) =
       Inr (volatility_multiplier 3 ?close)"
    unfolding hr cs_def by (rule new_columns_read)+
  have c1: "col_get ''Log_Returns'' (columns (h' r)) = Inr [NaN, Finite v1, Finite (- v2)]"
    and c2: "col_get ''Volatility'' (columns (h' r)) = Inr [NaN, Finite \<bar>v1\<bar>, Finite \<bar>- v2\<bar>]"
    and c3: "col_get ''Average_Volatility'' (columns (h' r)) =
          Inr [Finite ((v1 + v2) / 2), Finite ((v1 + v2) / 2), Finite ((v1 + v2) / 2)]"
    and c4: "col_get ''Volatility_Multiplier'' (columns (h' r)) =
          Inr [NaN, Finite 1.33, Finite 0.67]"
    unfolding g lr vol avg m rep abs1 abs2 by (rule refl)+
  from b have n1: "\<bar>v1 - 0.00995\<bar> < 0.00001" and n2: "\<bar>- v2 - (- 0.00497)\<bar> < 0.00001"
    and n3: "\<bar>\<bar>v1\<bar> - 0.00995\<bar> < 0.00001" and n4: "\<bar>\<bar>- v2\<bar> - 0.00497\<bar> < 0.00001"
    and n5: "\<bar>(v1 + v2) / 2 - 0.00746\<bar> < 0.00001"
    unfolding abs1 abs2 abs_less_iff by simp_all
  have n6: "(v1 + v2) / 2 = (\<bar>v1\<bar> + \<bar>- v2\<bar>) / 2"
    by (simp only: abs1 abs2)
  from run c1 c2 c3 c4 n1 n2 n3 n4 n5 n6 show ?thesis
    by blast
qed

theorem volatility_example_witness:
  "\<exists>h' lr1 lr2 avg. calculate_volatility (heap_of three_rows) (Some 0) = (h', [], Inr (Some 0))
      \<and> col_get ''Log_Returns'' (columns (h' 0)) = Inr [NaN, Finite lr1, Finite lr2]
      \<and> \<bar>lr1 - 0.00995\<bar> < 0.00001 \<and> \<bar>lr2 - (- 0.00497)\<bar> < 0.00001
      \<and> col_get ''Volatility'' (columns (h' 0)) = Inr [NaN, Finite \<bar>lr1\<bar>, Finite \<bar>lr2\<bar>]
      \<and> \<bar>\<bar>lr1\<bar> - 0.00995\<bar> < 0.00001 \<and> \<bar>\<bar>lr2\<bar> - 0.00497\<bar> < 0.00001
      \<and> col_get ''Average_Volatility'' (columns (h' 0)) = Inr [Finite avg, Finite avg, Finite avg]
      \<and> avg = (\<bar>lr1\<bar> + \<bar>lr2\<bar>) / 2 \<and> \<bar>avg - 0.00746\<bar> < 0.00001
      \<and> col_get ''Volatility_Multiplier'' (columns (h' 0)) =
            Inr [NaN, Finite 1.33, Finite 0.67]"
  by (rule volatility_example [of "heap_of three_rows" 0, OF three_rows_close])
    (simp add: heap_of_def three_rows_def)

subsection \<open>Constant series\<close>

lemma take_replicate_Cons: "take k (a # replicate k a) = replicate k a"
  using take_replicate [of k "Suc k" a] by simp

lemma shift_one_replicate: "shift 1 (a # replicate k a) = NaN # replicate k a"
  by (simp add: shift_def take_replicate_Cons)

lemma constant_log_returns:
  assumes "c \<noteq> 0"
  shows "log_returns (Finite c # replicate k (Finite c)) = NaN # replicate k (Finite 0)"
  using assms
  by (simp add: log_returns_def shift_one_replicate [unfolded One_nat_def] zip_replicate)

lemma constant_volatility:
  assumes "c \<noteq> 0"
  shows "volatility (Finite c # replicate k (Finite c)) = NaN # replicate k (Finite 0)"
  by (simp add: volatility_def constant_log_returns [OF assms])

lemma foldl_fadd_zeros: "foldl fadd (Finite 0) (replicate k (Finite 0)) = Finite 0"
  by (induction k) simp_all

lemma mean_zeros: "mean (NaN # replicate k (Finite 0)) = (if k = 0 then NaN else Finite 0)"
  by (simp add: mean_def isna_def foldl_fadd_zeros)

lemma constant_average_volatility:
  assumes "c \<noteq> 0"
  shows "average_volatility (Finite c # replicate k (Finite c)) =
           (if k = 0 then NaN else Finite 0)"
  by (simp only: average_volatility_def constant_volatility [OF assms] mean_zeros)

lemma constant_volatility_multiplier:
  assumes "c \<noteq> 0"
  shows "volatility_multiplier (Suc k) (Finite c # replicate k (Finite c)) =
           NaN # replicate k NaN"
  by (simp add: volatility_multiplier_def constant_volatility [OF assms]
      constant_average_volatility [OF assms] zip_replicate)

text \<open>
  C10, as the code has it.  On \<open>N \<ge> 1\<close> rows whose closes all equal one finite price
  other than zero the call returns the table without raising; the volatility is \<open>0\<close>
  at every row \<open>t \<ge> 1\<close>; the average volatility is \<open>0\<close> when \<open>N \<ge> 2\<close> and null when
  \<open>N = 1\<close>; and the multiplier is \<open>NaN\<close> at every row.
\<close>

theorem constant_series:
  assumes "col_get ''Adj Close'' (columns (h r)) = Inr (replicate n (Finite c))"
    and "c \<noteq> 0" and "length (index (h r)) = n" and "0 < n"
  shows "\<exists>h'. calculate_volatility h (Some r) = (h', [], Inr (Some r))
      \<and> col_get ''Volatility'' (columns (h' r)) = Inr (NaN # replicate (n - 1) (Finite 0))
      \<and> col_get ''Average_Volatility'' (columns (h' r)) =
            Inr (replicate n (if n = 1 then NaN else Finite 0))
      \<and> col_get ''Volatility_Multiplier'' (columns (h' r)) = Inr (replicate n NaN)"
proof -
  from assms(4) obtain k where k: "n = Suc k"
    by (cases n) simp_all
  let ?close = "Finite c # replicate k (Finite c)"
  define cs where "cs =
      col_set ''Volatility_Multiplier'' (volatility_multiplier (Suc k) ?close)
        (col_set ''Average_Volatility'' (replicate (Suc k) (average_volatility ?close))
          (col_set ''Volatility'' (volatility ?close)
            (col_set ''Log_Returns'' (log_returns ?close) (columns (h r)))))"
  define h' where "h' = h(r := (h r)\<lparr>columns := cs\<rparr>)"
  have hr: "columns (h' r) = cs"
    by (simp add: h'_def)
  from assms(3) k have ne: "index (h r) \<noteq> []"
    by auto
  from assms(1) k have close: "col_get ''Adj Close'' (columns (h r)) = Inr ?close"
    by simp
  have run: "calculate_volatility h (Some r) = (h', [], Inr (Some r))"
    using calculate_volatility_eq [of h r ?close, OF close ne] assms(3) k
    by (simp only: h'_def cs_def)
  have g: "col_get ''Volatility'' (columns (h' r)) = Inr (volatility ?close)"
    "col_get ''Average_Volatility'' (columns (h' r)) =
       Inr (replicate (Suc k) (average_volatility ?close))"
    "col_get ''Volatility_Multiplier'' (columns (h' r)) =
       Inr (volatility_multiplier (Suc k) ?close)"
    unfolding hr cs_def by (rule new_columns_read)+
  from g(1) have c2: "col_get ''Volatility'' (columns (h' r)) =
      Inr (NaN # replicate (n - 1) (Finite 0))"
    by (simp add: constant_volatility [OF assms(2)] k)
  from g(2) have c3: "col_get ''Average_Volatility'' (columns (h' r)) =
      Inr (replicate n (if n = 1 then NaN else Finite 0))"
    by (simp add: constant_average_volatility [OF assms(2)] k)
  from g(3) have c4: "col_get ''Volatility_Multiplier'' (columns (h' r)) = Inr (replicate n NaN)"
    by (simp add: constant_volatility_multiplier [OF assms(2)] k)
  from run c2 c3 c4 show ?thesis
    by blast
qed

theorem constant_series_witness:
  "\<exists>h'. calculate_volatility (heap_of constant_rows) (Some 0) = (h', [], Inr (Some 0))
      \<and> col_get ''Volatility'' (columns (h' 0)) = Inr [NaN, Finite 0, Finite 0]
      \<and> col_get ''Average_Volatility'' (columns (h' 0)) = Inr [Finite 0, Finite 0, Finite 0]
      \<and> col_get ''Volatility_Multiplier'' (columns (h' 0)) = Inr [NaN, NaN, NaN]"
proof -
  have close: "col_get ''Adj Close'' (columns (heap_of constant_rows 0)) =
      Inr (replicate 3 (Finite 1.25))"
    by (simp add: heap_of_def constant_rows_def col_get_def numeral_3_eq_3)
  have len: "length (index (heap_of constant_rows 0)) = 3"
    by (simp add: heap_of_def constant_rows_def)
  from constant_series [of "heap_of constant_rows" 0 3 "1.25", OF close _ len]
  show ?thesis
    by (simp add: numeral_3_eq_3)
qed

text \<open>
  C10, as the spec states it, fails on a series of one row: no volatility is defined
  there, so the average volatility is null and not \<open>0\<close>.
\<close>

theorem single_row_counterexample:
  "\<exists>h'. calculate_volatility (heap_of one_row) (Some 0) = (h', [], Inr (Some 0))
     \<and> col_get ''Adj Close'' (columns (h' 0)) = Inr [Finite 100]
     \<and> col_get ''Average_Volatility'' (columns (h' 0)) = Inr [NaN]
     \<and> [NaN] \<noteq> [Finite 0]"
proof -
  let ?close = "[Finite 100]"
  define cs where "cs =
      col_set ''Volatility_Multiplier'' (volatility_multiplier 1 ?close)
        (col_set ''Average_Volatility'' (replicate 1 (average_volatility ?close))
          (col_set ''Volatility'' (volatility ?close)
            (col_set ''Log_Returns'' (log_returns ?close) (columns (heap_of one_row 0)))))"
  define h' where "h' = (heap_of one_row)(0 := (heap_of one_row 0)\<lparr>columns := cs\<rparr>)"
  have hr: "columns (h' 0) = cs"
    by (simp add: h'_def)
  have close: "col_get ''Adj Close'' (columns (heap_of one_row 0)) = Inr ?close"
    by (simp add: heap_of_def one_row_def col_get_def)
  have ne: "index (heap_of one_row 0) \<noteq> []"
    and len: "length (index (heap_of one_row 0)) = 1"
    by (simp_all add: heap_of_def one_row_def)
  have run: "calculate_volatility (heap_of one_row) (Some 0) = (h', [], Inr (Some 0))"
    using calculate_volatility_eq [of "heap_of one_row" 0 ?close, OF close ne]
    by (simp only: h'_def cs_def len)
  have c0: "col_get ''Adj Close'' (columns (h' 0)) = Inr ?close"
    unfolding hr cs_def using close by (simp add: col_get_col_set)
  have "col_get ''Average_Volatility'' (columns (h' 0)) =
       Inr (replicate 1 (average_volatility ?close))"
    unfolding hr cs_def by (rule new_columns_read)
  moreover have "replicate 1 (average_volatility ?close) = [NaN]"
    by (simp add: column_defs)
  ultimately have c3: "col_get ''Average_Volatility'' (columns (h' 0)) = Inr [NaN]"
    by simp
  from run c0 c3 show ?thesis
    by auto
qed

end
